theory Spec2Isabelle
  imports Main
begin

section \<open>Exceptions\<close>

text \<open>
  Every \<^verbatim>\<open>raise\<close> of the sources, and every built-in exception a statement of the
  sources can throw, is a value of this type. The spec's error names are given beside the
  message the code raises with:
  \<^item> \<open>NoRollsRemaining\<close>: \<^verbatim>\<open>ValueError("No rolls remaining this turn")\<close>;
  \<^item> \<open>KeepDiceLength\<close>: \<^verbatim>\<open>ValueError("keep_dice must have exactly 5 boolean values")\<close>
    (the spec's InvalidInput for a keep-mask);
  \<^item> \<open>DiceIndexOutOfRange i\<close>: \<^verbatim>\<open>ValueError(f"Dice index {index} out of range (0-4)")\<close>
    (the spec's InvalidInput for a die index);
  \<^item> \<open>GameAlreadyComplete\<close>: \<^verbatim>\<open>ValueError("Game is already complete")\<close>;
  \<^item> \<open>MustHaveFiveDice\<close>: \<^verbatim>\<open>ValueError("Must have exactly 5 dice")\<close>;
  \<^item> \<open>KeyError k\<close>, \<open>IndexError\<close>, \<open>ZeroDivisionError\<close>: Python's own;
  \<^item> \<open>MaxOfEmpty\<close>: the ValueError of \<^verbatim>\<open>max\<close> on an empty sequence.
\<close>

datatype error =
    NoRollsRemaining
  | KeepDiceLength
  | DiceIndexOutOfRange int
  | GameAlreadyComplete
  | MustHaveFiveDice
  | KeyError string
  | IndexError
  | ZeroDivisionError
  | MaxOfEmpty

text \<open>The spec's \<open>InvalidInput\<close>: a malformed keep-mask or an out-of-range die index.\<close>

fun is_InvalidInput :: "error \<Rightarrow> bool" where
  "is_InvalidInput KeepDiceLength = True"
| "is_InvalidInput (DiceIndexOutOfRange i) = True"
| "is_InvalidInput e = False"

section \<open>dice.py: YahtzeeDice\<close>

text \<open>
  A method of a class takes the object and returns the outcome (\<open>Inl\<close> an exception,
  \<open>Inr\<close> the returned value) together with the object as the call leaves it: an
  exception does not undo the assignments made before it.

  \<^verbatim>\<open>random.randint(1, 6)\<close> is a parameter \<open>rnd\<close> of every method that rolls:
  \<open>rnd k\<close> is the value of the \<open>k\<close>-th draw of the call (counted from 0).
\<close>

record YahtzeeDice =
  dice :: "int list"
  rolls_remaining :: int

definition YahtzeeDice_init :: YahtzeeDice where
  "YahtzeeDice_init = \<lparr>dice = [1, 1, 1, 1, 1], rolls_remaining = 3\<rparr>"

text \<open>\<^verbatim>\<open>for i in range(5): self.dice[i] = random.randint(1, 6)\<close>\<close>

fun roll_all_loop :: "(nat \<Rightarrow> int) \<Rightarrow> nat list \<Rightarrow> int list \<Rightarrow> (error + unit) \<times> int list" where
  "roll_all_loop rnd [] ds = (Inr (), ds)"
| "roll_all_loop rnd (i # is) ds =
     (if i < length ds then roll_all_loop rnd is (ds[i := rnd i])
      else (Inl IndexError, ds))"

definition roll_all :: "(nat \<Rightarrow> int) \<Rightarrow> YahtzeeDice \<Rightarrow> (error + int list) \<times> YahtzeeDice" where
  "roll_all rnd d =
     (if rolls_remaining d \<le> 0 then (Inl NoRollsRemaining, d)
      else
        (case roll_all_loop rnd [0..<5] (dice d) of
           (Inl e, ds) \<Rightarrow> (Inl e, d\<lparr>dice := ds\<rparr>)
         | (Inr u, ds) \<Rightarrow> (Inr ds, d\<lparr>dice := ds, rolls_remaining := rolls_remaining d - 1\<rparr>)))"

text \<open>
  \<^verbatim>\<open>for i in range(5):
      if not keep_dice[i]: self.dice[i] = random.randint(1, 6)\<close>
  The third argument counts the draws made so far.
\<close>

fun roll_with_keep_loop ::
  "(nat \<Rightarrow> int) \<Rightarrow> bool list \<Rightarrow> nat \<Rightarrow> nat list \<Rightarrow> int list \<Rightarrow> (error + unit) \<times> int list" where
  "roll_with_keep_loop rnd keep_dice k [] ds = (Inr (), ds)"
| "roll_with_keep_loop rnd keep_dice k (i # is) ds =
     (if i < length keep_dice then
        (if \<not> keep_dice ! i then
           (if i < length ds then roll_with_keep_loop rnd keep_dice (Suc k) is (ds[i := rnd k])
            else (Inl IndexError, ds))
         else roll_with_keep_loop rnd keep_dice k is ds)
      else (Inl IndexError, ds))"

definition roll_with_keep ::
  "(nat \<Rightarrow> int) \<Rightarrow> bool list \<Rightarrow> YahtzeeDice \<Rightarrow> (error + int list) \<times> YahtzeeDice" where
  "roll_with_keep rnd keep_dice d =
     (if length keep_dice \<noteq> 5 then (Inl KeepDiceLength, d)
      else if rolls_remaining d \<le> 0 then (Inl NoRollsRemaining, d)
      else
        (case roll_with_keep_loop rnd keep_dice 0 [0..<5] (dice d) of
           (Inl e, ds) \<Rightarrow> (Inl e, d\<lparr>dice := ds\<rparr>)
         | (Inr u, ds) \<Rightarrow> (Inr ds, d\<lparr>dice := ds, rolls_remaining := rolls_remaining d - 1\<rparr>)))"

text \<open>
  \<^verbatim>\<open>for index in dice_indices:
      if not (0 <= index <= 4): raise ValueError(...)
      self.dice[index] = random.randint(1, 6)\<close>
  The range check of an index comes after the assignments for the indices before it.
\<close>

fun roll_specific_loop ::
  "(nat \<Rightarrow> int) \<Rightarrow> nat \<Rightarrow> int list \<Rightarrow> int list \<Rightarrow> (error + unit) \<times> int list" where
  "roll_specific_loop rnd k [] ds = (Inr (), ds)"
| "roll_specific_loop rnd k (index # rest) ds =
     (if \<not> (0 \<le> index \<and> index \<le> 4) then (Inl (DiceIndexOutOfRange index), ds)
      else if nat index < length ds
        then roll_specific_loop rnd (Suc k) rest (ds[nat index := rnd k])
      else (Inl IndexError, ds))"

definition roll_specific ::
  "(nat \<Rightarrow> int) \<Rightarrow> int list \<Rightarrow> YahtzeeDice \<Rightarrow> (error + int list) \<times> YahtzeeDice" where
  "roll_specific rnd dice_indices d =
     (if rolls_remaining d \<le> 0 then (Inl NoRollsRemaining, d)
      else
        (case roll_specific_loop rnd 0 dice_indices (dice d) of
           (Inl e, ds) \<Rightarrow> (Inl e, d\<lparr>dice := ds\<rparr>)
         | (Inr u, ds) \<Rightarrow> (Inr ds, d\<lparr>dice := ds, rolls_remaining := rolls_remaining d - 1\<rparr>)))"

definition get_dice :: "YahtzeeDice \<Rightarrow> int list" where
  "get_dice d = dice d"

definition get_rolls_remaining :: "YahtzeeDice \<Rightarrow> int" where
  "get_rolls_remaining d = rolls_remaining d"

definition can_roll :: "YahtzeeDice \<Rightarrow> bool" where
  "can_roll d = (rolls_remaining d > 0)"

definition start_new_turn :: "YahtzeeDice \<Rightarrow> YahtzeeDice" where
  "start_new_turn d = d\<lparr>rolls_remaining := 3\<rparr>"

text \<open>
  The operations of a dice set, for statements about every sequence of calls. A call
  that raises leaves the object as the exception found it.
\<close>

datatype dice_op =
    RollAll "nat \<Rightarrow> int"
  | RollWithKeep "nat \<Rightarrow> int" "bool list"
  | RollSpecific "nat \<Rightarrow> int" "int list"
  | StartNewTurn

fun dice_step :: "YahtzeeDice \<Rightarrow> dice_op \<Rightarrow> YahtzeeDice" where
  "dice_step d (RollAll rnd) = snd (roll_all rnd d)"
| "dice_step d (RollWithKeep rnd keep_dice) = snd (roll_with_keep rnd keep_dice d)"
| "dice_step d (RollSpecific rnd dice_indices) = snd (roll_specific rnd dice_indices d)"
| "dice_step d StartNewTurn = start_new_turn d"

definition dice_run :: "dice_op list \<Rightarrow> YahtzeeDice" where
  "dice_run ops = foldl dice_step YahtzeeDice_init ops"

section \<open>Python dictionaries\<close>

text \<open>
  A \<^verbatim>\<open>dict\<close> is the list of its items in insertion order, with no key twice.
  \<open>dict_set d k v\<close> is \<^verbatim>\<open>d[k] = v\<close>: a key already there keeps its place and gets the
  new value, a new key goes to the end. \<open>map_of d k\<close> is the lookup (\<open>None\<close> where
  Python raises KeyError, or where \<^verbatim>\<open>k in d\<close> is false), \<open>map fst d\<close> the keys and
  \<open>map snd d\<close> the values, both in insertion order.
\<close>

type_synonym ('k, 'v) dict = "('k \<times> 'v) list"

fun dict_set :: "('k, 'v) dict \<Rightarrow> 'k \<Rightarrow> 'v \<Rightarrow> ('k, 'v) dict" where
  "dict_set [] k v = [(k, v)]"
| "dict_set ((k', v') # d) k v =
     (if k' = k then (k', v) # d else (k', v') # dict_set d k v)"

text \<open>\<^verbatim>\<open>d.update(e)\<close>\<close>

definition dict_update :: "('k, 'v) dict \<Rightarrow> ('k, 'v) dict \<Rightarrow> ('k, 'v) dict" where
  "dict_update d e = foldl (\<lambda>acc (k, v). dict_set acc k v) d e"

section \<open>scorecard.py: YahtzeeScorecard\<close>

text \<open>A score of a category is \<open>None\<close> until the category is used.\<close>

record YahtzeeScorecard =
  upper_scores :: "(string, int option) dict"
  lower_scores :: "(string, int option) dict"
  yahtzee_bonus_count :: int

definition YahtzeeScorecard_init :: YahtzeeScorecard where
  "YahtzeeScorecard_init =
     \<lparr>upper_scores =
        [(''ones'', None), (''twos'', None), (''threes'', None),
         (''fours'', None), (''fives'', None), (''sixes'', None)],
      lower_scores =
        [(''three_of_kind'', None), (''four_of_kind'', None), (''full_house'', None),
         (''small_straight'', None), (''large_straight'', None), (''yahtzee'', None),
         (''chance'', None)],
      yahtzee_bonus_count = 0\<rparr>"

definition get_all_scores :: "YahtzeeScorecard \<Rightarrow> (string, int option) dict" where
  "get_all_scores sc = dict_update (dict_update [] (upper_scores sc)) (lower_scores sc)"

text \<open>\<^verbatim>\<open>category in all_scores and all_scores[category] is None\<close>\<close>

definition is_category_available :: "YahtzeeScorecard \<Rightarrow> string \<Rightarrow> bool" where
  "is_category_available sc category =
     (let all_scores = get_all_scores sc
      in map_of all_scores category \<noteq> None \<and> the (map_of all_scores category) = None)"

text \<open>
  \<^verbatim>\<open>['', 'ones', 'twos', 'threes', 'fours', 'fives', 'sixes'][value]\<close>, for \<open>value\<close> in
  \<^verbatim>\<open>range(1, 7)\<close>.
\<close>

definition upper_category :: "nat \<Rightarrow> string" where
  "upper_category n = ['''', ''ones'', ''twos'', ''threes'', ''fours'', ''fives'', ''sixes''] ! n"

text \<open>
  The statement the source repeats for every category:
  \<^verbatim>\<open>if self.is_category_available(category): possible_scores[category] = score\<close>
\<close>

definition set_if_available ::
  "YahtzeeScorecard \<Rightarrow> (string, int) dict \<Rightarrow> string \<Rightarrow> int \<Rightarrow> (string, int) dict" where
  "set_if_available sc possible_scores category score =
     (if is_category_available sc category then dict_set possible_scores category score
      else possible_scores)"

text \<open>\<^verbatim>\<open>[dice.count(i) for i in range(1, 7)]\<close>: how often each of the faces 1..6 occurs.\<close>

definition face_counts :: "int list \<Rightarrow> int list" where
  "face_counts ds = map (\<lambda>i. int (count_list ds i)) [1..6]"

text \<open>
  \<open>calculate_possible_scores\<close>. \<open>counts\<close> is
  \<^verbatim>\<open>[0] + [dice.count(i) for i in range(1, 7)]\<close>; \<open>drop 1 counts\<close> is \<^verbatim>\<open>counts[1:]\<close>.
  The categories are entered into \<open>possible_scores\<close> in the order of the source.
\<close>

definition calculate_possible_scores ::
  "YahtzeeScorecard \<Rightarrow> int list \<Rightarrow> error + (string, int) dict" where
  "calculate_possible_scores sc ds =
     (if length ds \<noteq> 5 then Inl MustHaveFiveDice
      else
        let counts = 0 # face_counts ds;
            dice_sum = sum_list ds;
            ps0 = foldl
              (\<lambda>ps n. set_if_available sc ps (upper_category n) (int n * counts ! n))
              [] [1..<7];
            has_three_of_kind = list_ex (\<lambda>c. c \<ge> 3) (drop 1 counts);
            ps1 = set_if_available sc ps0 ''three_of_kind''
                    (if has_three_of_kind then dice_sum else 0);
            has_four_of_kind = list_ex (\<lambda>c. c \<ge> 4) (drop 1 counts);
            ps2 = set_if_available sc ps1 ''four_of_kind''
                    (if has_four_of_kind then dice_sum else 0);
            counts_only = drop 1 counts;
            has_three = (3 \<in> set counts_only);
            has_two = (2 \<in> set counts_only);
            valid_full_house = (has_three \<and> has_two \<and> count_list counts_only 3 = 1);
            ps3 = set_if_available sc ps2 ''full_house'' (if valid_full_house then 25 else 0);
            unique_dice = set ds;
            small_straights = [{1, 2, 3, 4}, {2, 3, 4, 5}, {3, 4, 5, 6}];
            has_small_straight =
              list_ex (\<lambda>straight. straight \<subseteq> unique_dice) small_straights;
            ps4 = set_if_available sc ps3 ''small_straight''
                    (if has_small_straight then 30 else 0);
            large_straights = [{1, 2, 3, 4, 5}, {2, 3, 4, 5, 6}];
            has_large_straight =
              list_ex (\<lambda>straight. straight = unique_dice) large_straights;
            ps5 = set_if_available sc ps4 ''large_straight''
                    (if has_large_straight then 40 else 0);
            has_yahtzee = list_ex (\<lambda>c. c = 5) (drop 1 counts);
            ps6 = set_if_available sc ps5 ''yahtzee'' (if has_yahtzee then 50 else 0);
            ps7 = set_if_available sc ps6 ''chance'' dice_sum
        in Inr ps7)"

text \<open>
  \<open>score_category\<close>. The score is stored in \<open>upper_scores\<close> when the category is one of
  its keys and in \<open>lower_scores\<close> otherwise. The bonus check reads
  \<^verbatim>\<open>self.lower_scores['yahtzee']\<close> only when \<^verbatim>\<open>max(counts) == 5\<close>, after the score is
  stored.
\<close>

definition score_category ::
  "YahtzeeScorecard \<Rightarrow> string \<Rightarrow> int list \<Rightarrow> (error + bool) \<times> YahtzeeScorecard" where
  "score_category sc category ds =
     (if \<not> is_category_available sc category then (Inr False, sc)
      else
        (case calculate_possible_scores sc ds of
           Inl e \<Rightarrow> (Inl e, sc)
         | Inr possible_scores \<Rightarrow>
             (case map_of possible_scores category of
                None \<Rightarrow> (Inr False, sc)
              | Some s \<Rightarrow>
                  (let sc1 =
                         (if map_of (upper_scores sc) category \<noteq> None
                          then sc\<lparr>upper_scores := dict_set (upper_scores sc) category (Some s)\<rparr>
                          else sc\<lparr>lower_scores := dict_set (lower_scores sc) category (Some s)\<rparr>)
                   in if category \<noteq> ''yahtzee'' then
                        (let counts = face_counts ds
                         in if Max (set counts) = 5 then
                              (case map_of (lower_scores sc1) ''yahtzee'' of
                                 None \<Rightarrow> (Inl (KeyError ''yahtzee''), sc1)
                               | Some y \<Rightarrow>
                                   if y = Some 50
                                   then (Inr True,
                                         sc1\<lparr>yahtzee_bonus_count := yahtzee_bonus_count sc1 + 1\<rparr>)
                                   else (Inr True, sc1))
                            else (Inr True, sc1))
                      else (Inr True, sc1)))))"

text \<open>\<^verbatim>\<open>sum(score for score in d.values() if score is not None)\<close>\<close>

definition sum_scores :: "(string, int option) dict \<Rightarrow> int" where
  "sum_scores d = sum_list (map the (filter (\<lambda>score. score \<noteq> None) (map snd d)))"

definition calculate_upper_total :: "YahtzeeScorecard \<Rightarrow> int" where
  "calculate_upper_total sc = sum_scores (upper_scores sc)"

definition calculate_upper_bonus :: "YahtzeeScorecard \<Rightarrow> int" where
  "calculate_upper_bonus sc = (if calculate_upper_total sc \<ge> 63 then 35 else 0)"

definition calculate_lower_total :: "YahtzeeScorecard \<Rightarrow> int" where
  "calculate_lower_total sc = sum_scores (lower_scores sc)"

definition calculate_yahtzee_bonus :: "YahtzeeScorecard \<Rightarrow> int" where
  "calculate_yahtzee_bonus sc = yahtzee_bonus_count sc * 100"

definition calculate_grand_total :: "YahtzeeScorecard \<Rightarrow> int" where
  "calculate_grand_total sc =
     calculate_upper_total sc + calculate_upper_bonus sc
     + calculate_lower_total sc + calculate_yahtzee_bonus sc"

definition is_complete :: "YahtzeeScorecard \<Rightarrow> bool" where
  "is_complete sc = list_all (\<lambda>score. score \<noteq> None) (map snd (get_all_scores sc))"

definition get_available_categories :: "YahtzeeScorecard \<Rightarrow> string list" where
  "get_available_categories sc =
     map fst (filter (\<lambda>(category, score). score = None) (get_all_scores sc))"

text \<open>
  The keys of the two dictionaries never change after \<^verbatim>\<open>__init__\<close>: \<open>score_category\<close>
  assigns to a key that is there. A scorecard with these keys is what the constructor
  and every later call produce.
\<close>

definition upper_names :: "string list" where
  "upper_names = [''ones'', ''twos'', ''threes'', ''fours'', ''fives'', ''sixes'']"

definition lower_names :: "string list" where
  "lower_names = [''three_of_kind'', ''four_of_kind'', ''full_house'', ''small_straight'',
                  ''large_straight'', ''yahtzee'', ''chance'']"

definition categories :: "string list" where
  "categories = upper_names @ lower_names"

definition scorecard_ok :: "YahtzeeScorecard \<Rightarrow> bool" where
  "scorecard_ok sc =
     (map fst (upper_scores sc) = upper_names \<and> map fst (lower_scores sc) = lower_names)"

text \<open>The stored score of a category: \<^verbatim>\<open>get_all_scores()[category]\<close>.\<close>

definition stored_score :: "YahtzeeScorecard \<Rightarrow> string \<Rightarrow> int option option" where
  "stored_score sc category = map_of (get_all_scores sc) category"

section \<open>game.py: YahtzeeGame\<close>

text \<open>
  The field \<^verbatim>\<open>dice\<close> of the game is \<open>game_dice\<close> here, and the methods
  \<^verbatim>\<open>start_new_turn\<close> and \<^verbatim>\<open>score_category\<close> of the game are \<open>game_start_new_turn\<close> and
  \<open>game_score_category\<close>: the names without prefix are those of the dice set and of
  the scorecard.
\<close>

record YahtzeeGame =
  player_name :: string
  scorecard :: YahtzeeScorecard
  game_dice :: YahtzeeDice
  current_turn :: int
  max_turns :: int
  game_complete :: bool

definition YahtzeeGame_init :: "string \<Rightarrow> YahtzeeGame" where
  "YahtzeeGame_init name =
     \<lparr>player_name = name, scorecard = YahtzeeScorecard_init, game_dice = YahtzeeDice_init,
      current_turn = 1, max_turns = 13, game_complete = False\<rparr>"

definition game_start_new_turn :: "(nat \<Rightarrow> int) \<Rightarrow> YahtzeeGame \<Rightarrow> (error + unit) \<times> YahtzeeGame" where
  "game_start_new_turn rnd g =
     (if game_complete g then (Inl GameAlreadyComplete, g)
      else
        (case roll_all rnd (start_new_turn (game_dice g)) of
           (Inl e, d) \<Rightarrow> (Inl e, g\<lparr>game_dice := d\<rparr>)
         | (Inr faces, d) \<Rightarrow> (Inr (), g\<lparr>game_dice := d\<rparr>)))"

text \<open>\<open>keep_dice = None\<close> is Python's \<^verbatim>\<open>None\<close>, the default of the parameter.\<close>

definition roll_dice ::
  "(nat \<Rightarrow> int) \<Rightarrow> bool list option \<Rightarrow> YahtzeeGame \<Rightarrow> (error + int list) \<times> YahtzeeGame" where
  "roll_dice rnd keep_dice g =
     (if game_complete g then (Inl GameAlreadyComplete, g)
      else
        (case keep_dice of
           None \<Rightarrow> (case roll_all rnd (game_dice g) of (r, d) \<Rightarrow> (r, g\<lparr>game_dice := d\<rparr>))
         | Some ks \<Rightarrow>
             (case roll_with_keep rnd ks (game_dice g) of (r, d) \<Rightarrow> (r, g\<lparr>game_dice := d\<rparr>))))"

definition get_possible_scores :: "YahtzeeGame \<Rightarrow> error + (string, int) dict" where
  "get_possible_scores g =
     (if game_complete g then Inr []
      else calculate_possible_scores (scorecard g) (get_dice (game_dice g)))"

text \<open>
  \<open>game_score_category\<close>. The draws \<open>rnd\<close> are those of the roll that seeds the next
  turn; they are used only when the commit succeeds and the game goes on.
\<close>

definition game_score_category ::
  "(nat \<Rightarrow> int) \<Rightarrow> YahtzeeGame \<Rightarrow> string \<Rightarrow> (error + bool) \<times> YahtzeeGame" where
  "game_score_category rnd g category =
     (if game_complete g then (Inr False, g)
      else
        (case score_category (scorecard g) category (get_dice (game_dice g)) of
           (Inl e, sc) \<Rightarrow> (Inl e, g\<lparr>scorecard := sc\<rparr>)
         | (Inr success, sc) \<Rightarrow>
             (let g1 = g\<lparr>scorecard := sc\<rparr>
              in if success then
                   (let g2 = g1\<lparr>current_turn := current_turn g1 + 1\<rparr>
                    in if current_turn g2 > max_turns g2 \<or> is_complete (scorecard g2)
                       then (Inr success, g2\<lparr>game_complete := True\<rparr>)
                       else
                         (case game_start_new_turn rnd g2 of
                            (Inl e, g3) \<Rightarrow> (Inl e, g3)
                          | (Inr u, g3) \<Rightarrow> (Inr success, g3)))
                 else (Inr success, g1))))"

definition game_can_roll :: "YahtzeeGame \<Rightarrow> bool" where
  "game_can_roll g = (\<not> game_complete g \<and> can_roll (game_dice g))"

definition get_current_score :: "YahtzeeGame \<Rightarrow> int" where
  "get_current_score g = calculate_grand_total (scorecard g)"

text \<open>
  A game as the constructor and its methods leave it: the scorecard has its 13 keys and
  there are five dice.
\<close>

definition game_ok :: "YahtzeeGame \<Rightarrow> bool" where
  "game_ok g = (scorecard_ok (scorecard g) \<and> length (dice (game_dice g)) = 5)"

section \<open>gamestate.py: GameState\<close>

text \<open>
  \<open>keep\<close> is the attribute that the server sets on the room at the first score command;
  \<open>None\<close> until then. \<open>winner\<close> is \<^verbatim>\<open>None\<close> or a player's name.
\<close>

record GameState =
  room_code :: string
  players :: "string list"
  scores :: "(string, YahtzeeGame) dict"
  turn_index :: int
  ready :: bool
  final_scores :: "(string, int) dict"
  winner :: "string option"
  keep :: "bool list option"

definition GameState_init :: "string \<Rightarrow> GameState" where
  "GameState_init code =
     \<lparr>room_code = code, players = [], scores = [], turn_index = 0, ready = False,
      final_scores = [], winner = None, keep = None\<rparr>"

definition is_full :: "GameState \<Rightarrow> bool" where
  "is_full st = (length (players st) = 2)"

text \<open>\<^verbatim>\<open>self.players[self.turn_index]\<close>, with Python's indexing from the end for a negative index.\<close>

definition current_player :: "GameState \<Rightarrow> error + string" where
  "current_player st =
     (let n = int (length (players st));
          j = (if turn_index st < 0 then n + turn_index st else turn_index st)
      in if 0 \<le> j \<and> j < n then Inr (players st ! nat j) else Inl IndexError)"

definition next_turn :: "GameState \<Rightarrow> (error + unit) \<times> GameState" where
  "next_turn st =
     (if length (players st) = 0 then (Inl ZeroDivisionError, st)
      else (Inr (), st\<lparr>turn_index := (turn_index st + 1) mod int (length (players st))\<rparr>))"

section \<open>server.py: the handler of a connection\<close>

text \<open>
  \<open>rooms\<close> is the table of the rooms by code; of an entry
  \<^verbatim>\<open>{'clients': [...], 'state': room}\<close> the model keeps the state: the sockets play no
  part in what a request does to a room. Every branch of \<^verbatim>\<open>client\<close> that changes a room
  runs under the one lock, so a request is a function from the table to the table.
  An exception leaves the handler through \<^verbatim>\<open>except:\<close>, which closes the connection;
  what the request had assigned before stays.
\<close>

text \<open>
  \<^verbatim>\<open>max(scores, key=scores.get)\<close>: the keys are visited in insertion order and a later key
  replaces the best one so far only when its value is strictly greater.
\<close>

fun max_by_value :: "string \<times> int \<Rightarrow> (string, int) dict \<Rightarrow> string" where
  "max_by_value (k, v) [] = k"
| "max_by_value (k, v) ((k', v') # rest) =
     (if v' > v then max_by_value (k', v') rest else max_by_value (k, v) rest)"

definition dict_max_key :: "(string, int) dict \<Rightarrow> error + string" where
  "dict_max_key d = (case d of [] \<Rightarrow> Inl MaxOfEmpty | p # rest \<Rightarrow> Inr (max_by_value p rest))"

text \<open>\<^verbatim>\<open>{p: g.get_current_score() for p, g in state.scores.items()}\<close>\<close>

definition score_totals :: "GameState \<Rightarrow> (string, int) dict" where
  "score_totals st = map (\<lambda>(p, g). (p, get_current_score g)) (scores st)"

text \<open>\<^verbatim>\<open>all(gm.game_complete for gm in state.scores.values())\<close>\<close>

definition all_done :: "GameState \<Rightarrow> bool" where
  "all_done st = list_all game_complete (map snd (scores st))"

text \<open>
  A command message. The field \<^verbatim>\<open>keep\<close> of a roll is read with
  \<^verbatim>\<open>msg.get('keep', [False]*5)\<close>: it may be absent, \<^verbatim>\<open>None\<close> or a list.
\<close>

datatype keep_field = KeepAbsent | KeepNone | KeepList "bool list"

fun keep_argument :: "keep_field \<Rightarrow> bool list option" where
  "keep_argument KeepAbsent = Some (replicate 5 False)"
| "keep_argument KeepNone = None"
| "keep_argument (KeepList ks) = Some ks"

datatype command = Roll keep_field | Score string | OtherCommand string

datatype response = Created string | Joined string | ErrorResponse string

text \<open>
  \<^verbatim>\<open>msg['action'] == 'create'\<close>; \<open>code\<close> is what \<^verbatim>\<open>get_code()\<close> returned, a code that is
  not in the table.
\<close>

definition handle_create ::
  "(string, GameState) dict \<Rightarrow> string \<Rightarrow> string \<Rightarrow> response \<times> (string, GameState) dict" where
  "handle_create rooms code name =
     (let room = GameState_init code;
          room = room\<lparr>players := players room @ [name]\<rparr>;
          room = room\<lparr>scores := dict_set (scores room) name (YahtzeeGame_init name)\<rparr>
      in (Created code, dict_set rooms code room))"

text \<open>\<^verbatim>\<open>msg['action'] == 'join'\<close>\<close>

definition handle_join ::
  "(string, GameState) dict \<Rightarrow> string \<Rightarrow> string \<Rightarrow> response \<times> (string, GameState) dict" where
  "handle_join rooms code name =
     (case map_of rooms code of
        None \<Rightarrow> (ErrorResponse ''Room full or not found'', rooms)
      | Some room \<Rightarrow>
          if is_full room then (ErrorResponse ''Room full or not found'', rooms)
          else
            (let room = room\<lparr>players := players room @ [name]\<rparr>;
                 room = room\<lparr>scores := dict_set (scores room) name (YahtzeeGame_init name)\<rparr>;
                 room = room\<lparr>ready := True\<rparr>
             in (Joined code, dict_set rooms code room)))"

text \<open>
  \<^verbatim>\<open>msg['action'] == 'command'\<close>. The handler changes the game and the room in place;
  the model writes the changed game back into the room and the changed room back into
  the table, whether or not the call raised. After \<^verbatim>\<open>game.score_category(...)\<close>,
  whose result the handler does not read, the room's \<open>keep\<close> is reset and \<open>next_turn\<close>
  is called; then the winner is computed if all games are complete.
\<close>

text \<open>
  \<^verbatim>\<open>if all_done: scores = {...}; winner = max(scores, key=scores.get);
  state.winner = winner; state.final_scores = scores\<close>
\<close>

definition set_winner_if_done :: "GameState \<Rightarrow> (error + unit) \<times> GameState" where
  "set_winner_if_done st =
     (if all_done st then
        (let totals = score_totals st
         in case dict_max_key totals of
              Inl e \<Rightarrow> (Inl e, st)
            | Inr w \<Rightarrow> (Inr (), st\<lparr>winner := Some w, final_scores := totals\<rparr>))
      else (Inr (), st))"

text \<open>
  \<^verbatim>\<open>state.keep = [False] * 5; state.next_turn()\<close> and the check whether all players are
  done.
\<close>

definition after_score :: "GameState \<Rightarrow> (error + unit) \<times> GameState" where
  "after_score st =
     (case next_turn (st\<lparr>keep := Some (replicate 5 False)\<rparr>) of
        (Inl e, st') \<Rightarrow> (Inl e, st')
      | (Inr u, st') \<Rightarrow> set_winner_if_done st')"

text \<open>The command on the room \<open>st\<close>, which is \<^verbatim>\<open>rooms[room_code]['state']\<close>.\<close>

definition command_on_room ::
  "(nat \<Rightarrow> int) \<Rightarrow> GameState \<Rightarrow> string \<Rightarrow> command \<Rightarrow> (error + unit) \<times> GameState" where
  "command_on_room rnd st player cmd =
     (case map_of (scores st) player of
        None \<Rightarrow> (Inl (KeyError player), st)
      | Some game \<Rightarrow>
          (case cmd of
             Roll kf \<Rightarrow>
               (case roll_dice rnd (keep_argument kf) game of
                  (Inl e, game') \<Rightarrow> (Inl e, st\<lparr>scores := dict_set (scores st) player game'\<rparr>)
                | (Inr faces, game') \<Rightarrow>
                    (Inr (), st\<lparr>scores := dict_set (scores st) player game'\<rparr>))
           | Score category \<Rightarrow>
               (case game_score_category rnd game category of
                  (Inl e, game') \<Rightarrow> (Inl e, st\<lparr>scores := dict_set (scores st) player game'\<rparr>)
                | (Inr success, game') \<Rightarrow>
                    after_score (st\<lparr>scores := dict_set (scores st) player game'\<rparr>))
           | OtherCommand other \<Rightarrow> (Inr (), st)))"

definition handle_command ::
  "(nat \<Rightarrow> int) \<Rightarrow> (string, GameState) dict \<Rightarrow> string \<Rightarrow> string \<Rightarrow> command
     \<Rightarrow> (error + unit) \<times> (string, GameState) dict" where
  "handle_command rnd rooms code player cmd =
     (case map_of rooms code of
        None \<Rightarrow> (Inl (KeyError code), rooms)
      | Some st \<Rightarrow>
          (case command_on_room rnd st player cmd of
             (r, st') \<Rightarrow> (r, dict_set rooms code st')))"

text \<open>
  The requests that change the table, and a run of them from the empty table.
  \<open>Delete code\<close> is \<^verbatim>\<open>del rooms[code]\<close> of the cleanup after a lost connection, done when
  the room has no client left.
\<close>

datatype request =
    Create string string
  | Join string string
  | Command "nat \<Rightarrow> int" string string command
  | Delete string

fun handle :: "(string, GameState) dict \<Rightarrow> request \<Rightarrow> (string, GameState) dict" where
  "handle rooms (Create code name) = snd (handle_create rooms code name)"
| "handle rooms (Join code name) = snd (handle_join rooms code name)"
| "handle rooms (Command rnd code player cmd) = snd (handle_command rnd rooms code player cmd)"
| "handle rooms (Delete code) = filter (\<lambda>(c, st). c \<noteq> code) rooms"

definition serve :: "request list \<Rightarrow> (string, GameState) dict" where
  "serve reqs = foldl handle [] reqs"

text \<open>A request that is a score command for the room \<open>code\<close>.\<close>

fun is_score_for :: "string \<Rightarrow> request \<Rightarrow> bool" where
  "is_score_for code (Command rnd code' player (Score category)) = (code' = code)"
| "is_score_for code req = False"

text \<open>A request that puts a new room under \<open>code\<close> or deletes the room \<open>code\<close>.\<close>

fun makes_or_deletes :: "string \<Rightarrow> request \<Rightarrow> bool" where
  "makes_or_deletes code (Create code' name) = (code' = code)"
| "makes_or_deletes code (Delete code') = (code' = code)"
| "makes_or_deletes code req = False"

text \<open>
  A join that the handler accepts into a room whose winner is set, and the runs in which
  there is none.
\<close>

fun late_join :: "(string, GameState) dict \<Rightarrow> request \<Rightarrow> bool" where
  "late_join rooms (Join code name) =
     (case map_of rooms code of
        None \<Rightarrow> False
      | Some st \<Rightarrow> \<not> is_full st \<and> winner st \<noteq> None)"
| "late_join rooms req = False"

fun no_late_join :: "(string, GameState) dict \<Rightarrow> request list \<Rightarrow> bool" where
  "no_late_join rooms [] = True"
| "no_late_join rooms (req # reqs) =
     (\<not> late_join rooms req \<and> no_late_join (handle rooms req) reqs)"

text \<open>
  What the handler keeps true of every room: it has a player and a game, and when all
  its games are complete, \<open>final_scores\<close> holds the totals and \<open>winner\<close> the key that
  \<^verbatim>\<open>max(scores, key=scores.get)\<close> picks from them.
\<close>

definition winner_recorded :: "GameState \<Rightarrow> bool" where
  "winner_recorded st =
     (players st \<noteq> [] \<and> scores st \<noteq> []
      \<and> (all_done st \<longrightarrow>
           final_scores st = score_totals st
           \<and> winner st = Some (max_by_value (hd (score_totals st)) (tl (score_totals st)))))"

section \<open>Properties of the dice\<close>

lemma roll_all_loop_length:
  "length (snd (roll_all_loop rnd is ds)) = length ds"
  by (induction "is" arbitrary: ds) auto

lemma roll_all_loop_ok:
  "\<forall>i \<in> set is. i < length ds \<Longrightarrow> fst (roll_all_loop rnd is ds) = Inr ()"
  by (induction "is" arbitrary: ds) auto

lemma roll_with_keep_loop_length:
  "length (snd (roll_with_keep_loop rnd kd k is ds)) = length ds"
  by (induction "is" arbitrary: ds k) auto

lemma roll_with_keep_loop_ok:
  "\<forall>i \<in> set is. i < length ds \<and> i < length kd \<Longrightarrow>
   fst (roll_with_keep_loop rnd kd k is ds) = Inr ()"
  by (induction "is" arbitrary: ds k) auto

lemma roll_specific_loop_length:
  "length (snd (roll_specific_loop rnd k ixs ds)) = length ds"
  by (induction ixs arbitrary: ds k) auto

lemma roll_all_succeeds:
  assumes "length (dice d) = 5" and "0 < rolls_remaining d"
  shows "\<exists>ds. roll_all rnd d = (Inr ds, d\<lparr>dice := ds, rolls_remaining := rolls_remaining d - 1\<rparr>)
           \<and> length ds = 5"
proof -
  obtain r ds where loop: "roll_all_loop rnd [0..<5] (dice d) = (r, ds)"
    by (cases "roll_all_loop rnd [0..<5] (dice d)")
  have "fst (roll_all_loop rnd [0..<5] (dice d)) = Inr ()"
    by (rule roll_all_loop_ok) (simp add: assms)
  with loop have r: "r = Inr ()" by simp
  have "length (snd (roll_all_loop rnd [0..<5] (dice d))) = 5"
    by (simp add: roll_all_loop_length assms)
  with loop have "length ds = 5" by simp
  with loop r assms show ?thesis by (simp add: roll_all_def)
qed

lemma roll_all_rolls:
  "0 \<le> rolls_remaining d \<Longrightarrow> 0 \<le> rolls_remaining (snd (roll_all rnd d))"
  by (auto simp: roll_all_def split: prod.splits sum.splits)

lemma roll_with_keep_rolls:
  "0 \<le> rolls_remaining d \<Longrightarrow> 0 \<le> rolls_remaining (snd (roll_with_keep rnd kd d))"
  by (auto simp: roll_with_keep_def split: prod.splits sum.splits)

lemma roll_specific_rolls:
  "0 \<le> rolls_remaining d \<Longrightarrow> 0 \<le> rolls_remaining (snd (roll_specific rnd ixs d))"
  by (auto simp: roll_specific_def split: prod.splits sum.splits)

lemma dice_step_rolls:
  "0 \<le> rolls_remaining d \<Longrightarrow> 0 \<le> rolls_remaining (dice_step d x)"
  by (cases x)
    (simp_all add: roll_all_rolls roll_with_keep_rolls roll_specific_rolls start_new_turn_def)

lemma foldl_dice_step_rolls:
  "0 \<le> rolls_remaining d \<Longrightarrow> 0 \<le> rolls_remaining (foldl dice_step d ops)"
  by (induction ops arbitrary: d) (simp_all add: dice_step_rolls)

lemma dice_run_rolls: "0 \<le> rolls_remaining (dice_run ops)"
  unfolding dice_run_def by (rule foldl_dice_step_rolls) (simp add: YahtzeeDice_init_def)

lemma roll_all_exhausted:
  "rolls_remaining d \<le> 0 \<Longrightarrow> roll_all rnd d = (Inl NoRollsRemaining, d)"
  by (simp add: roll_all_def)

lemma roll_specific_loop_rejects:
  assumes "\<exists>i \<in> set ixs. \<not> (0 \<le> i \<and> i \<le> 4)" and "length ds = 5"
  shows "\<exists>j. j \<in> set ixs \<and> \<not> (0 \<le> j \<and> j \<le> 4)
           \<and> fst (roll_specific_loop rnd k ixs ds) = Inl (DiceIndexOutOfRange j)"
  using assms
proof (induction ixs arbitrary: ds k)
  case Nil
  then show ?case by simp
next
  case (Cons i ixs)
  show ?case
  proof (cases "0 \<le> i \<and> i \<le> 4")
    case False
    then show ?thesis by auto
  next
    case True
    with Cons.prems have bad: "\<exists>i \<in> set ixs. \<not> (0 \<le> i \<and> i \<le> 4)" by auto
    have len: "length (ds[nat i := rnd k]) = 5" using Cons.prems by simp
    from Cons.IH [OF bad len, of "Suc k"] True Cons.prems show ?thesis by auto
  qed
qed

text \<open>
  C6. Right after \<open>start_new_turn\<close>, three \<open>roll_all\<close> calls in a row succeed, each
  returning the new faces and lowering \<open>rolls_remaining\<close> by one (3, 2, 1, 0); a fourth
  call raises "No rolls remaining this turn" and leaves the dice set as it was.
  \<open>start_new_turn\<close> sets \<open>rolls_remaining\<close> to 3 and keeps the faces. Whatever calls
  are made on a new dice set, \<open>rolls_remaining\<close> is never negative.
\<close>

theorem roll_budget:
  "length (dice d) = 5 \<Longrightarrow>
   (let d0 = start_new_turn d;
        (x1, d1) = roll_all r1 d0;
        (x2, d2) = roll_all r2 d1;
        (x3, d3) = roll_all r3 d2;
        (x4, d4) = roll_all r4 d3
    in dice d0 = dice d \<and> rolls_remaining d0 = 3
     \<and> x1 = Inr (dice d1) \<and> rolls_remaining d1 = rolls_remaining d0 - 1
     \<and> x2 = Inr (dice d2) \<and> rolls_remaining d2 = rolls_remaining d1 - 1
     \<and> x3 = Inr (dice d3) \<and> rolls_remaining d3 = rolls_remaining d2 - 1
     \<and> rolls_remaining d3 = 0
     \<and> x4 = Inl NoRollsRemaining \<and> d4 = d3)
   \<and> (\<forall>ops. 0 \<le> rolls_remaining (dice_run ops))"
proof -
  assume len: "length (dice d) = 5"
  define d0 where "d0 = start_new_turn d"
  have d0: "length (dice d0) = 5" "rolls_remaining d0 = 3" "dice d0 = dice d"
    by (simp_all add: d0_def start_new_turn_def len)
  from roll_all_succeeds [of d0 r1] d0 obtain ds1 where
    s1: "roll_all r1 d0 = (Inr ds1, d0\<lparr>dice := ds1, rolls_remaining := 2\<rparr>)" "length ds1 = 5"
    by auto
  define d1 where "d1 = d0\<lparr>dice := ds1, rolls_remaining := 2\<rparr>"
  from roll_all_succeeds [of d1 r2] s1(2) obtain ds2 where
    s2: "roll_all r2 d1 = (Inr ds2, d1\<lparr>dice := ds2, rolls_remaining := 1\<rparr>)" "length ds2 = 5"
    by (auto simp: d1_def)
  define d2 where "d2 = d1\<lparr>dice := ds2, rolls_remaining := 1\<rparr>"
  from roll_all_succeeds [of d2 r3] s2(2) obtain ds3 where
    s3: "roll_all r3 d2 = (Inr ds3, d2\<lparr>dice := ds3, rolls_remaining := 0\<rparr>)" "length ds3 = 5"
    by (auto simp: d2_def)
  define d3 where "d3 = d2\<lparr>dice := ds3, rolls_remaining := 0\<rparr>"
  have s4: "roll_all r4 d3 = (Inl NoRollsRemaining, d3)"
    by (rule roll_all_exhausted) (simp add: d3_def)
  have "(let d0 = start_new_turn d;
        (x1, d1) = roll_all r1 d0;
        (x2, d2) = roll_all r2 d1;
        (x3, d3) = roll_all r3 d2;
        (x4, d4) = roll_all r4 d3
    in dice d0 = dice d \<and> rolls_remaining d0 = 3
     \<and> x1 = Inr (dice d1) \<and> rolls_remaining d1 = rolls_remaining d0 - 1
     \<and> x2 = Inr (dice d2) \<and> rolls_remaining d2 = rolls_remaining d1 - 1
     \<and> x3 = Inr (dice d3) \<and> rolls_remaining d3 = rolls_remaining d2 - 1
     \<and> rolls_remaining d3 = 0
     \<and> x4 = Inl NoRollsRemaining \<and> d4 = d3)"
    using d0 s1(1) s2(1) s3(1) s4
    by (simp add: d0_def [symmetric] d1_def [symmetric] d2_def [symmetric] d3_def [symmetric])
      (simp add: d1_def d2_def d3_def)
  then show ?thesis by (simp add: dice_run_rolls)
qed

theorem roll_budget_witness:
  "length (dice YahtzeeDice_init) = 5 \<and>
   roll_all (\<lambda>k. 4) (start_new_turn YahtzeeDice_init)
     = (Inr [4, 4, 4, 4, 4], \<lparr>dice = [4, 4, 4, 4, 4], rolls_remaining = 2\<rparr>) \<and>
   roll_all (\<lambda>k. 2) \<lparr>dice = [4, 4, 4, 4, 4], rolls_remaining = 2\<rparr>
     = (Inr [2, 2, 2, 2, 2], \<lparr>dice = [2, 2, 2, 2, 2], rolls_remaining = 1\<rparr>) \<and>
   roll_all (\<lambda>k. 6) \<lparr>dice = [2, 2, 2, 2, 2], rolls_remaining = 1\<rparr>
     = (Inr [6, 6, 6, 6, 6], \<lparr>dice = [6, 6, 6, 6, 6], rolls_remaining = 0\<rparr>) \<and>
   roll_all (\<lambda>k. 3) \<lparr>dice = [6, 6, 6, 6, 6], rolls_remaining = 0\<rparr>
     = (Inl NoRollsRemaining, \<lparr>dice = [6, 6, 6, 6, 6], rolls_remaining = 0\<rparr>) \<and>
   0 \<le> rolls_remaining (dice_run [RollAll (\<lambda>k. 4), StartNewTurn])"
  using roll_budget [of YahtzeeDice_init "\<lambda>k. 4" "\<lambda>k. 2" "\<lambda>k. 6" "\<lambda>k. 3"]
  by (simp add: YahtzeeDice_init_def start_new_turn_def roll_all_def upt_rec dice_run_def)

text \<open>
  C7, as the code has it. \<open>roll_with_keep\<close> with a mask whose length is not 5 raises
  "keep_dice must have exactly 5 boolean values" whatever the dice state, and changes
  nothing. \<open>roll_specific\<close> with an index outside 0..4 always raises and never changes
  \<open>rolls_remaining\<close>: with no roll left it raises "No rolls remaining this turn" and
  changes nothing; otherwise it raises "Dice index j out of range (0-4)" for an
  out-of-range index \<open>j\<close> of the request, and when that index is the first one named the
  dice set is unchanged.
\<close>

theorem invalid_roll_request:
  "(length keep_dice \<noteq> 5 \<longrightarrow> roll_with_keep rnd keep_dice d = (Inl KeepDiceLength, d))
   \<and> (length (dice d) = 5 \<and> (\<exists>i \<in> set ixs. \<not> (0 \<le> i \<and> i \<le> 4)) \<longrightarrow>
        (\<exists>e d'. roll_specific rnd ixs d = (Inl e, d')
           \<and> rolls_remaining d' = rolls_remaining d
           \<and> (rolls_remaining d \<le> 0 \<longrightarrow> e = NoRollsRemaining \<and> d' = d)
           \<and> (0 < rolls_remaining d \<longrightarrow>
                (\<exists>j \<in> set ixs. \<not> (0 \<le> j \<and> j \<le> 4) \<and> e = DiceIndexOutOfRange j)
                \<and> is_InvalidInput e
                \<and> (\<not> (0 \<le> hd ixs \<and> hd ixs \<le> 4) \<longrightarrow> d' = d))))"
proof (intro conjI impI)
  assume "length keep_dice \<noteq> 5"
  then show "roll_with_keep rnd keep_dice d = (Inl KeepDiceLength, d)"
    by (simp add: roll_with_keep_def)
next
  assume a: "length (dice d) = 5 \<and> (\<exists>i \<in> set ixs. \<not> (0 \<le> i \<and> i \<le> 4))"
  show "\<exists>e d'. roll_specific rnd ixs d = (Inl e, d')
           \<and> rolls_remaining d' = rolls_remaining d
           \<and> (rolls_remaining d \<le> 0 \<longrightarrow> e = NoRollsRemaining \<and> d' = d)
           \<and> (0 < rolls_remaining d \<longrightarrow>
                (\<exists>j \<in> set ixs. \<not> (0 \<le> j \<and> j \<le> 4) \<and> e = DiceIndexOutOfRange j)
                \<and> is_InvalidInput e
                \<and> (\<not> (0 \<le> hd ixs \<and> hd ixs \<le> 4) \<longrightarrow> d' = d))"
  proof (cases "rolls_remaining d \<le> 0")
    case True
    then show ?thesis by (simp add: roll_specific_def)
  next
    case False
    from a roll_specific_loop_rejects [of ixs "dice d" rnd 0] obtain j where
      j: "j \<in> set ixs" "\<not> (0 \<le> j \<and> j \<le> 4)"
         "fst (roll_specific_loop rnd 0 ixs (dice d)) = Inl (DiceIndexOutOfRange j)"
      by blast
    obtain r ds where loop: "roll_specific_loop rnd 0 ixs (dice d) = (r, ds)"
      by (cases "roll_specific_loop rnd 0 ixs (dice d)")
    with j(3) have r: "r = Inl (DiceIndexOutOfRange j)" by simp
    have first: "\<not> (0 \<le> hd ixs \<and> hd ixs \<le> 4) \<Longrightarrow> ds = dice d"
      using loop a by (cases ixs) auto
    from False loop r have res:
      "roll_specific rnd ixs d = (Inl (DiceIndexOutOfRange j), d\<lparr>dice := ds\<rparr>)"
      by (simp add: roll_specific_def)
    show ?thesis
      using res False j(1,2) first by auto
  qed
qed

theorem invalid_roll_request_witness:
  "length [True, False] \<noteq> (5::nat)
   \<and> roll_with_keep (\<lambda>k. 6) [True, False] YahtzeeDice_init = (Inl KeepDiceLength, YahtzeeDice_init)
   \<and> length (dice YahtzeeDice_init) = 5
   \<and> roll_specific (\<lambda>k. 6) [7, 0] YahtzeeDice_init
       = (Inl (DiceIndexOutOfRange 7), YahtzeeDice_init)"
  using invalid_roll_request [of "[True, False]" "\<lambda>k. 6" YahtzeeDice_init "[7, 0]"]
  by (simp add: YahtzeeDice_init_def roll_specific_def)

text \<open>
  C7, as the spec states it, fails for \<open>roll_specific\<close>: on a new dice set the request
  \<open>[0, 7]\<close> rerolls die 0 before index 7 is found out of range, so the faces have changed
  when the ValueError is raised; and with no roll left the request \<open>[7]\<close> is refused
  for the exhausted budget, not for the index.
\<close>

theorem roll_specific_rejects_after_mutation:
  "roll_specific (\<lambda>k. 6) [0, 7] YahtzeeDice_init
     = (Inl (DiceIndexOutOfRange 7), \<lparr>dice = [6, 1, 1, 1, 1], rolls_remaining = 3\<rparr>)
   \<and> dice (snd (roll_specific (\<lambda>k. 6) [0, 7] YahtzeeDice_init)) \<noteq> dice YahtzeeDice_init
   \<and> roll_specific (\<lambda>k. 6) [7] \<lparr>dice = [1, 1, 1, 1, 1], rolls_remaining = 0\<rparr>
     = (Inl NoRollsRemaining, \<lparr>dice = [1, 1, 1, 1, 1], rolls_remaining = 0\<rparr>)
   \<and> \<not> is_InvalidInput NoRollsRemaining"
  by (simp add: roll_specific_def YahtzeeDice_init_def)

section \<open>Properties of the scorecard\<close>

subsection \<open>Dictionaries\<close>

lemma map_of_dict_set: "map_of (dict_set d k v) c = (if c = k then Some v else map_of d c)"
  by (induction d) auto

lemma keys_dict_set:
  "map_of d k \<noteq> None \<Longrightarrow> map fst (dict_set d k v) = map fst d"
  by (induction d) auto

lemma map_of_set_if_available:
  "map_of (set_if_available sc ps k v) c =
     (if is_category_available sc k \<and> c = k then Some v else map_of ps c)"
  by (simp add: set_if_available_def map_of_dict_set)

lemma available_stored: "is_category_available sc c \<longleftrightarrow> stored_score sc c = Some None"
  by (auto simp: is_category_available_def stored_score_def Let_def)

lemma keys_map_of: "c \<in> set (map fst ps) \<longleftrightarrow> map_of ps c \<noteq> None"
  by (simp add: map_of_eq_None_iff)

subsection \<open>What \<open>calculate_possible_scores\<close> returns\<close>

lemma range_1_7: "[1..<7] = [1, 2, 3, 4, 5, 6]"
  by (simp add: upt_rec)

lemma upper_category_simps:
  "upper_category 1 = ''ones''" "upper_category 2 = ''twos''" "upper_category 3 = ''threes''"
  "upper_category 4 = ''fours''" "upper_category 5 = ''fives''" "upper_category 6 = ''sixes''"
  by (simp_all add: upper_category_def)

lemma possible_scores_Inr:
  "length ds = 5 \<Longrightarrow> \<exists>ps. calculate_possible_scores sc ds = Inr ps"
  by (simp add: calculate_possible_scores_def Let_def)

lemma possible_scores_lookup:
  assumes "length ds = 5"
  shows "map_of (projr (calculate_possible_scores sc ds)) c =
      (if is_category_available sc ''chance'' \<and> c = ''chance'' then Some (sum_list ds)
       else if is_category_available sc ''yahtzee'' \<and> c = ''yahtzee''
         then Some (if list_ex (\<lambda>c. c = 5) (drop 1 (0 # face_counts ds)) then 50 else 0)
       else if is_category_available sc ''large_straight'' \<and> c = ''large_straight''
         then Some (if list_ex (\<lambda>straight. straight = set ds) [{1, 2, 3, 4, 5}, {2, 3, 4, 5, 6}]
                    then 40 else 0)
       else if is_category_available sc ''small_straight'' \<and> c = ''small_straight''
         then Some (if list_ex (\<lambda>straight. straight \<subseteq> set ds)
                         [{1, 2, 3, 4}, {2, 3, 4, 5}, {3, 4, 5, 6}]
                    then 30 else 0)
       else if is_category_available sc ''full_house'' \<and> c = ''full_house''
         then Some (if 3 \<in> set (drop 1 (0 # face_counts ds))
                      \<and> 2 \<in> set (drop 1 (0 # face_counts ds))
                      \<and> count_list (drop 1 (0 # face_counts ds)) 3 = 1
                    then 25 else 0)
       else if is_category_available sc ''four_of_kind'' \<and> c = ''four_of_kind''
         then Some (if list_ex (\<lambda>c. c \<ge> 4) (drop 1 (0 # face_counts ds)) then sum_list ds else 0)
       else if is_category_available sc ''three_of_kind'' \<and> c = ''three_of_kind''
         then Some (if list_ex (\<lambda>c. c \<ge> 3) (drop 1 (0 # face_counts ds)) then sum_list ds else 0)
       else if is_category_available sc ''sixes'' \<and> c = ''sixes''
         then Some (int 6 * (0 # face_counts ds) ! 6)
       else if is_category_available sc ''fives'' \<and> c = ''fives''
         then Some (int 5 * (0 # face_counts ds) ! 5)
       else if is_category_available sc ''fours'' \<and> c = ''fours''
         then Some (int 4 * (0 # face_counts ds) ! 4)
       else if is_category_available sc ''threes'' \<and> c = ''threes''
         then Some (int 3 * (0 # face_counts ds) ! 3)
       else if is_category_available sc ''twos'' \<and> c = ''twos''
         then Some (int 2 * (0 # face_counts ds) ! 2)
       else if is_category_available sc ''ones'' \<and> c = ''ones''
         then Some (int 1 * (0 # face_counts ds) ! 1)
       else None)"
  using assms
  apply (simp only: calculate_possible_scores_def Let_def range_1_7 foldl.simps upper_category_simps)
  apply (simp only: map_of_set_if_available map_of.simps if_False simp_thms sum.sel)
  done

lemma set_if_available_None:
  "map_of (set_if_available sc ps k v) c = None \<longleftrightarrow>
     \<not> (is_category_available sc k \<and> c = k) \<and> map_of ps c = None"
  by (auto simp: map_of_set_if_available)

lemma in_categories:
  "c \<in> set categories \<longleftrightarrow>
     c = ''ones'' \<or> c = ''twos'' \<or> c = ''threes'' \<or> c = ''fours'' \<or> c = ''fives''
   \<or> c = ''sixes'' \<or> c = ''three_of_kind'' \<or> c = ''four_of_kind'' \<or> c = ''full_house''
   \<or> c = ''small_straight'' \<or> c = ''large_straight'' \<or> c = ''yahtzee'' \<or> c = ''chance''"
  by (simp add: categories_def upper_names_def lower_names_def)

lemma possible_scores_None:
  assumes "length ds = 5"
  shows "map_of (projr (calculate_possible_scores sc ds)) c = None \<longleftrightarrow>
       \<not> (is_category_available sc ''chance'' \<and> c = ''chance'')
     \<and> \<not> (is_category_available sc ''yahtzee'' \<and> c = ''yahtzee'')
     \<and> \<not> (is_category_available sc ''large_straight'' \<and> c = ''large_straight'')
     \<and> \<not> (is_category_available sc ''small_straight'' \<and> c = ''small_straight'')
     \<and> \<not> (is_category_available sc ''full_house'' \<and> c = ''full_house'')
     \<and> \<not> (is_category_available sc ''four_of_kind'' \<and> c = ''four_of_kind'')
     \<and> \<not> (is_category_available sc ''three_of_kind'' \<and> c = ''three_of_kind'')
     \<and> \<not> (is_category_available sc ''sixes'' \<and> c = ''sixes'')
     \<and> \<not> (is_category_available sc ''fives'' \<and> c = ''fives'')
     \<and> \<not> (is_category_available sc ''fours'' \<and> c = ''fours'')
     \<and> \<not> (is_category_available sc ''threes'' \<and> c = ''threes'')
     \<and> \<not> (is_category_available sc ''twos'' \<and> c = ''twos'')
     \<and> \<not> (is_category_available sc ''ones'' \<and> c = ''ones'')"
  using assms
  apply (simp only: calculate_possible_scores_def Let_def range_1_7 foldl.simps upper_category_simps)
  apply (simp only: set_if_available_None map_of.simps if_False simp_thms sum.sel)
  done

lemma possible_scores_keys:
  assumes "length ds = 5"
  shows "map_of (projr (calculate_possible_scores sc ds)) c \<noteq> None \<longleftrightarrow>
         c \<in> set categories \<and> is_category_available sc c"
  unfolding possible_scores_None [OF assms] in_categories by safe

lemma possible_scores_chance:
  assumes "length ds = 5" and "is_category_available sc ''chance''"
  shows "map_of (projr (calculate_possible_scores sc ds)) ''chance'' = Some (sum_list ds)"
  using assms(2) by (simp add: possible_scores_lookup [OF assms(1)])

lemma possible_scores_full_house:
  assumes "length ds = 5" and "is_category_available sc ''full_house''"
  shows "map_of (projr (calculate_possible_scores sc ds)) ''full_house'' =
       Some (if 3 \<in> set (face_counts ds) \<and> 2 \<in> set (face_counts ds)
                \<and> count_list (face_counts ds) 3 = 1 then 25 else 0)"
  using assms(2) by (simp add: possible_scores_lookup [OF assms(1)])

subsection \<open>Counting faces\<close>

lemma count_list_map_card:
  "distinct xs \<Longrightarrow> count_list (map f xs) y = card {x \<in> set xs. f x = y}"
proof (induction xs)
  case Nil
  then show ?case by simp
next
  case (Cons a xs)
  define S where "S = {x \<in> set xs. f x = y}"
  have fin: "finite S" by (simp add: S_def)
  from Cons.prems have notin: "a \<notin> S" by (simp add: S_def)
  have ins: "card (insert a S) = Suc (card S)"
    by (rule card_insert_disjoint [OF fin notin])
  have split: "{x \<in> set (a # xs). f x = y} = (if f a = y then insert a S else S)"
    by (auto simp: S_def)
  have "card {x \<in> set (a # xs). f x = y} = (if f a = y then 1 else 0) + card S"
    unfolding split by (simp add: ins)
  moreover have "count_list (map f (a # xs)) y = (if f a = y then 1 else 0) + count_list (map f xs) y"
    by simp
  moreover from Cons have "count_list (map f xs) y = card S" by (simp add: S_def)
  ultimately show ?case by simp
qed

lemma count_list_two: "u \<noteq> v \<Longrightarrow> count_list xs u + count_list xs v \<le> length xs"
  by (induction xs) auto

lemma face_counts_mem:
  assumes "\<forall>x \<in> set ds. 1 \<le> x \<and> x \<le> 6" and "0 < n"
  shows "int n \<in> set (face_counts ds) \<longleftrightarrow> (\<exists>v. count_list ds v = n)"
proof
  assume "int n \<in> set (face_counts ds)"
  then show "\<exists>v. count_list ds v = n" by (auto simp: face_counts_def)
next
  assume "\<exists>v. count_list ds v = n"
  then obtain v where v: "count_list ds v = n" ..
  with assms(2) have "v \<in> set ds" by (metis count_list_0_iff not_less_zero)
  with assms(1) have "v \<in> set [1..6]" by auto
  with v show "int n \<in> set (face_counts ds)" by (auto simp: face_counts_def)
qed

lemma face_counts_once:
  assumes "\<forall>x \<in> set ds. 1 \<le> x \<and> x \<le> 6" and "0 < n"
  shows "count_list (face_counts ds) (int n) = 1 \<longleftrightarrow>
         (\<exists>v. count_list ds v = n \<and> (\<forall>u. count_list ds u = n \<longrightarrow> u = v))"
proof -
  have inrange: "count_list ds u = n \<Longrightarrow> u \<in> set [1..6]" for u
  proof -
    assume "count_list ds u = n"
    with assms(2) have "u \<in> set ds" by (metis count_list_0_iff not_less_zero)
    with assms(1) show ?thesis by auto
  qed
  have "count_list (face_counts ds) (int n) = card {i \<in> set [1..6]. int (count_list ds i) = int n}"
    unfolding face_counts_def by (rule count_list_map_card) simp
  also have "{i \<in> set [1..6]. int (count_list ds i) = int n} = {u. count_list ds u = n}"
    using inrange by auto
  finally have "count_list (face_counts ds) (int n) = card {u. count_list ds u = n}" .
  moreover have "card {u. count_list ds u = n} = 1 \<longleftrightarrow>
      (\<exists>v. count_list ds v = n \<and> (\<forall>u. count_list ds u = n \<longrightarrow> u = v))"
    by (auto simp: card_1_singleton_iff)
  ultimately show ?thesis by simp
qed

subsection \<open>Scorecards with the keys of the constructor\<close>

lemma map_fst_Cons_iff:
  "map fst xs = k # ks \<longleftrightarrow> (\<exists>v ys. xs = (k, v) # ys \<and> map fst ys = ks)"
  by (cases xs) auto

lemma scorecard_ok_shape:
  assumes "scorecard_ok sc"
  obtains a1 a2 a3 a4 a5 a6 b1 b2 b3 b4 b5 b6 b7 where
    "upper_scores sc = [(''ones'', a1), (''twos'', a2), (''threes'', a3),
                        (''fours'', a4), (''fives'', a5), (''sixes'', a6)]"
    "lower_scores sc = [(''three_of_kind'', b1), (''four_of_kind'', b2), (''full_house'', b3),
                        (''small_straight'', b4), (''large_straight'', b5), (''yahtzee'', b6),
                        (''chance'', b7)]"
  using assms
  unfolding scorecard_ok_def upper_names_def lower_names_def
  by (auto simp: map_fst_Cons_iff)

lemma scorecard_ok_init: "scorecard_ok YahtzeeScorecard_init"
  by (simp add: scorecard_ok_def YahtzeeScorecard_init_def upper_names_def lower_names_def)

lemma ok_all_scores:
  assumes "scorecard_ok sc"
  shows "get_all_scores sc = upper_scores sc @ lower_scores sc"
proof -
  from assms obtain a1 a2 a3 a4 a5 a6 b1 b2 b3 b4 b5 b6 b7 where
    u: "upper_scores sc = [(''ones'', a1), (''twos'', a2), (''threes'', a3),
                        (''fours'', a4), (''fives'', a5), (''sixes'', a6)]" and
    l: "lower_scores sc = [(''three_of_kind'', b1), (''four_of_kind'', b2), (''full_house'', b3),
                        (''small_straight'', b4), (''large_straight'', b5), (''yahtzee'', b6),
                        (''chance'', b7)]"
    by (rule scorecard_ok_shape)
  show ?thesis
    by (simp add: get_all_scores_def dict_update_def u l)
qed

lemma ok_upper_dom:
  "scorecard_ok sc \<Longrightarrow> map_of (upper_scores sc) c \<noteq> None \<longleftrightarrow> c \<in> set upper_names"
  by (simp add: map_of_eq_None_iff scorecard_ok_def flip: set_map)

lemma ok_lower_dom:
  "scorecard_ok sc \<Longrightarrow> map_of (lower_scores sc) c \<noteq> None \<longleftrightarrow> c \<in> set lower_names"
  by (simp add: map_of_eq_None_iff scorecard_ok_def flip: set_map)

lemma names_disjoint: "c \<in> set upper_names \<Longrightarrow> c \<notin> set lower_names"
  by (auto simp: upper_names_def lower_names_def)

lemma ok_stored:
  assumes "scorecard_ok sc"
  shows "stored_score sc c =
     (if c \<in> set upper_names then map_of (upper_scores sc) c else map_of (lower_scores sc) c)"
proof -
  have "map_of (upper_scores sc @ lower_scores sc) c =
     (case map_of (upper_scores sc) c of None \<Rightarrow> map_of (lower_scores sc) c | Some x \<Rightarrow> Some x)"
    by (simp add: map_add_def)
  moreover have "c \<notin> set upper_names \<Longrightarrow> map_of (upper_scores sc) c = None"
    using ok_upper_dom [OF assms, of c] by simp
  moreover have "c \<in> set upper_names \<Longrightarrow> \<exists>x. map_of (upper_scores sc) c = Some x"
    using ok_upper_dom [OF assms, of c] by simp
  ultimately show ?thesis
    by (auto simp: stored_score_def ok_all_scores [OF assms])
qed

lemma ok_stored_dom:
  assumes "scorecard_ok sc"
  shows "stored_score sc c \<noteq> None \<longleftrightarrow> c \<in> set categories"
  using ok_upper_dom [OF assms, of c] ok_lower_dom [OF assms, of c]
  by (auto simp: ok_stored [OF assms] categories_def)

subsection \<open>What \<open>score_category\<close> does\<close>

lemma score_category_unavailable:
  "\<not> is_category_available sc c \<Longrightarrow> score_category sc c ds = (Inr False, sc)"
  by (simp add: score_category_def)

lemma available_in_categories:
  assumes "scorecard_ok sc" and "is_category_available sc c"
  shows "c \<in> set categories"
  using ok_stored_dom [OF assms(1), of c] assms(2) by (simp add: available_stored)

lemma score_category_available:
  assumes ok: "scorecard_ok sc" and len: "length ds = 5" and av: "is_category_available sc c"
  shows "\<exists>s. map_of (projr (calculate_possible_scores sc ds)) c = Some s \<and>
     score_category sc c ds =
       (Inr True,
        (if c \<in> set upper_names
         then sc\<lparr>upper_scores := dict_set (upper_scores sc) c (Some s)\<rparr>
         else sc\<lparr>lower_scores := dict_set (lower_scores sc) c (Some s)\<rparr>)
        \<lparr>yahtzee_bonus_count := yahtzee_bonus_count sc +
           (if c \<noteq> ''yahtzee'' \<and> Max (set (face_counts ds)) = 5
               \<and> map_of (lower_scores sc) ''yahtzee'' = Some (Some 50) then 1 else 0)\<rparr>)"
proof -
  from possible_scores_Inr [OF len] obtain ps where
    ps: "calculate_possible_scores sc ds = Inr ps" by blast
  then have proj: "projr (calculate_possible_scores sc ds) = ps" by simp
  from available_in_categories [OF ok av] av possible_scores_keys [OF len, of sc c]
  obtain s where s: "map_of ps c = Some s" by (auto simp: proj)
  have up: "map_of (upper_scores sc) c \<noteq> None \<longleftrightarrow> c \<in> set upper_names"
    by (rule ok_upper_dom [OF ok])
  have "''yahtzee'' \<in> set lower_names" by (simp add: lower_names_def)
  with ok_lower_dom [OF ok, of "''yahtzee''"] obtain y where
    y: "map_of (lower_scores sc) ''yahtzee'' = Some y" by auto
  have y1: "c \<noteq> ''yahtzee'' \<Longrightarrow>
      map_of (dict_set (lower_scores sc) c (Some s)) ''yahtzee'' = Some y"
    by (simp add: map_of_dict_set y)
  have "score_category sc c ds =
       (Inr True,
        (if c \<in> set upper_names
         then sc\<lparr>upper_scores := dict_set (upper_scores sc) c (Some s)\<rparr>
         else sc\<lparr>lower_scores := dict_set (lower_scores sc) c (Some s)\<rparr>)
        \<lparr>yahtzee_bonus_count := yahtzee_bonus_count sc +
           (if c \<noteq> ''yahtzee'' \<and> Max (set (face_counts ds)) = 5
               \<and> map_of (lower_scores sc) ''yahtzee'' = Some (Some 50) then 1 else 0)\<rparr>)"
    using av up y y1
    by (simp add: score_category_def ps s Let_def)
  with s proj show ?thesis by simp
qed

lemma score_category_True_available:
  "score_category sc c ds = (Inr True, sc') \<Longrightarrow> is_category_available sc c \<and> length ds = 5"
  by (auto simp: score_category_def calculate_possible_scores_def split: if_splits)

lemma score_category_keeps_ok:
  assumes "scorecard_ok sc"
  shows "scorecard_ok (snd (score_category sc c ds))"
proof (cases "is_category_available sc c \<and> length ds = 5")
  case False
  then show ?thesis
    using assms by (auto simp: score_category_def calculate_possible_scores_def)
next
  case True
  then have av: "is_category_available sc c" and len: "length ds = 5" by simp_all
  from score_category_available [OF assms len av] obtain s where
    res: "score_category sc c ds =
       (Inr True,
        (if c \<in> set upper_names
         then sc\<lparr>upper_scores := dict_set (upper_scores sc) c (Some s)\<rparr>
         else sc\<lparr>lower_scores := dict_set (lower_scores sc) c (Some s)\<rparr>)
        \<lparr>yahtzee_bonus_count := yahtzee_bonus_count sc +
           (if c \<noteq> ''yahtzee'' \<and> Max (set (face_counts ds)) = 5
               \<and> map_of (lower_scores sc) ''yahtzee'' = Some (Some 50) then 1 else 0)\<rparr>)"
    by blast
  from available_in_categories [OF assms av]
  have cat: "c \<in> set upper_names \<or> c \<in> set lower_names" by (simp add: categories_def)
  have u: "c \<in> set upper_names \<Longrightarrow> map fst (dict_set (upper_scores sc) c (Some s)) = upper_names"
    using ok_upper_dom [OF assms, of c] assms by (simp add: keys_dict_set scorecard_ok_def)
  have l: "c \<notin> set upper_names \<Longrightarrow> map fst (dict_set (lower_scores sc) c (Some s)) = lower_names"
    using ok_lower_dom [OF assms, of c] assms cat by (simp add: keys_dict_set scorecard_ok_def)
  show ?thesis
    unfolding res using u l assms by (simp add: scorecard_ok_def)
qed

lemma score_category_stored:
  assumes ok: "scorecard_ok sc" and res: "score_category sc c ds = (Inr True, sc')"
  shows "stored_score sc' c = Some (Some (the (map_of (projr (calculate_possible_scores sc ds)) c)))
       \<and> (\<forall>k. k \<noteq> c \<longrightarrow> stored_score sc' k = stored_score sc k)"
proof -
  from score_category_True_available [OF res]
  have av: "is_category_available sc c" and len: "length ds = 5" by simp_all
  from score_category_available [OF ok len av] obtain s where
    s: "map_of (projr (calculate_possible_scores sc ds)) c = Some s" and
    eq: "score_category sc c ds =
       (Inr True,
        (if c \<in> set upper_names
         then sc\<lparr>upper_scores := dict_set (upper_scores sc) c (Some s)\<rparr>
         else sc\<lparr>lower_scores := dict_set (lower_scores sc) c (Some s)\<rparr>)
        \<lparr>yahtzee_bonus_count := yahtzee_bonus_count sc +
           (if c \<noteq> ''yahtzee'' \<and> Max (set (face_counts ds)) = 5
               \<and> map_of (lower_scores sc) ''yahtzee'' = Some (Some 50) then 1 else 0)\<rparr>)"
    by blast
  from eq res have sc': "sc' =
        (if c \<in> set upper_names
         then sc\<lparr>upper_scores := dict_set (upper_scores sc) c (Some s)\<rparr>
         else sc\<lparr>lower_scores := dict_set (lower_scores sc) c (Some s)\<rparr>)
        \<lparr>yahtzee_bonus_count := yahtzee_bonus_count sc +
           (if c \<noteq> ''yahtzee'' \<and> Max (set (face_counts ds)) = 5
               \<and> map_of (lower_scores sc) ''yahtzee'' = Some (Some 50) then 1 else 0)\<rparr>"
    by simp
  have ok': "scorecard_ok sc'"
    using score_category_keeps_ok [OF ok, of c ds] res by simp
  have up: "upper_scores sc' =
      (if c \<in> set upper_names then dict_set (upper_scores sc) c (Some s) else upper_scores sc)"
    by (simp add: sc')
  have lo: "lower_scores sc' =
      (if c \<in> set upper_names then lower_scores sc else dict_set (lower_scores sc) c (Some s))"
    by (simp add: sc')
  have "stored_score sc' k = (if k = c then Some (Some s) else stored_score sc k)" for k
    unfolding ok_stored [OF ok'] ok_stored [OF ok] up lo
    by (auto simp: map_of_dict_set)
  with s show ?thesis by simp
qed

subsection \<open>Totals and the Yahtzee bonus\<close>

lemma sum_scores_Cons:
  "sum_scores ((k, v) # d) = (case v of None \<Rightarrow> 0 | Some s \<Rightarrow> s) + sum_scores d"
  by (cases v) (simp_all add: sum_scores_def)

lemma sum_scores_dict_set:
  "map_of d k = Some None \<Longrightarrow> distinct (map fst d) \<Longrightarrow>
   sum_scores (dict_set d k (Some s)) = sum_scores d + s"
proof (induction d)
  case Nil
  then show ?case by simp
next
  case (Cons p d)
  obtain k' v' where p: "p = (k', v')" by (cases p)
  show ?case
  proof (cases "k' = k")
    case True
    with Cons.prems p have "v' = None" by simp
    with True p show ?thesis by (simp add: sum_scores_Cons)
  next
    case False
    with Cons p show ?thesis by (simp add: sum_scores_Cons)
  qed
qed

lemma count_list_le_length: "count_list xs x \<le> length xs"
  by (induction xs) auto

lemma max_face_counts:
  assumes "length ds = 5"
  shows "Max (set (face_counts ds)) = 5 \<longleftrightarrow> (\<exists>v \<in> {1..6}. count_list ds v = 5)"
proof -
  have fin: "finite (set (face_counts ds))" by simp
  have ne: "set (face_counts ds) \<noteq> {}" by (simp add: face_counts_def)
  have le: "\<forall>x \<in> set (face_counts ds). x \<le> 5"
    using count_list_le_length [of ds] assms by (auto simp: face_counts_def)
  have "Max (set (face_counts ds)) = 5 \<longleftrightarrow> 5 \<in> set (face_counts ds)"
    using Max_eq_iff [OF fin ne, of 5] le by auto
  also have "\<dots> \<longleftrightarrow> (\<exists>v \<in> {1..6}. count_list ds v = 5)"
    by (auto simp: face_counts_def)
  finally show ?thesis .
qed

subsection \<open>Claims about \<open>calculate_possible_scores\<close>\<close>

text \<open>
  C9. For every scorecard and every roll of five dice, \<open>calculate_possible_scores\<close>
  returns a dictionary whose keys are exactly the categories, out of the 13 fixed ones,
  whose stored score is still \<open>None\<close> (not yet committed); chance, when not yet
  committed, is among them with the sum of the faces.
\<close>

theorem possible_scores_open_categories:
  "length ds = 5 \<Longrightarrow>
   (\<exists>ps. calculate_possible_scores sc ds = Inr ps
      \<and> (\<forall>c. c \<in> set (map fst ps) \<longleftrightarrow> c \<in> set categories \<and> stored_score sc c = Some None)
      \<and> (stored_score sc ''chance'' = Some None \<longrightarrow> map_of ps ''chance'' = Some (sum_list ds)))
   \<and> length categories = 13 \<and> distinct categories"
proof -
  assume len: "length ds = 5"
  from possible_scores_Inr [OF len] obtain ps where
    ps: "calculate_possible_scores sc ds = Inr ps" by blast
  then have proj: "projr (calculate_possible_scores sc ds) = ps" by simp
  have keys: "c \<in> set (map fst ps) \<longleftrightarrow> c \<in> set categories \<and> stored_score sc c = Some None" for c
    using possible_scores_keys [OF len, of sc c]
    by (simp only: proj keys_map_of available_stored)
  have chance: "stored_score sc ''chance'' = Some None \<Longrightarrow> map_of ps ''chance'' = Some (sum_list ds)"
    using possible_scores_chance [OF len, of sc] by (simp only: proj available_stored)
  have "length categories = 13 \<and> distinct categories"
    by (simp add: categories_def upper_names_def lower_names_def)
  with ps keys chance show ?thesis by blast
qed

theorem possible_scores_open_categories_witness:
  "length [2, 3, 4, 5, 6 :: int] = 5
   \<and> (\<exists>ps. calculate_possible_scores
              (snd (score_category YahtzeeScorecard_init ''yahtzee'' [5, 5, 5, 5, 5]))
              [2, 3, 4, 5, 6] = Inr ps
      \<and> (\<forall>c. c \<in> set (map fst ps) \<longleftrightarrow>
              c \<in> set categories
              \<and> stored_score (snd (score_category YahtzeeScorecard_init ''yahtzee'' [5, 5, 5, 5, 5])) c
                  = Some None)
      \<and> (stored_score (snd (score_category YahtzeeScorecard_init ''yahtzee'' [5, 5, 5, 5, 5]))
             ''chance'' = Some None
           \<longrightarrow> map_of ps ''chance'' = Some (sum_list [2, 3, 4, 5, 6])))
   \<and> calculate_possible_scores
        (snd (score_category YahtzeeScorecard_init ''yahtzee'' [5, 5, 5, 5, 5])) [2, 3, 4, 5, 6]
      = Inr [(''ones'', 0), (''twos'', 2), (''threes'', 3), (''fours'', 4), (''fives'', 5),
             (''sixes'', 6), (''three_of_kind'', 0), (''four_of_kind'', 0), (''full_house'', 0),
             (''small_straight'', 30), (''large_straight'', 40), (''chance'', 20)]
   \<and> stored_score (snd (score_category YahtzeeScorecard_init ''yahtzee'' [5, 5, 5, 5, 5]))
        ''yahtzee'' = Some (Some 50)"
proof -
  have len: "length [2, 3, 4, 5, 6 :: int] = 5" by simp
  have run: "calculate_possible_scores
        (snd (score_category YahtzeeScorecard_init ''yahtzee'' [5, 5, 5, 5, 5])) [2, 3, 4, 5, 6]
      = Inr [(''ones'', 0), (''twos'', 2), (''threes'', 3), (''fours'', 4), (''fives'', 5),
             (''sixes'', 6), (''three_of_kind'', 0), (''four_of_kind'', 0), (''full_house'', 0),
             (''small_straight'', 30), (''large_straight'', 40), (''chance'', 20)]"
    by code_simp
  have stored: "stored_score (snd (score_category YahtzeeScorecard_init ''yahtzee'' [5, 5, 5, 5, 5]))
        ''yahtzee'' = Some (Some 50)"
    by code_simp
  from possible_scores_open_categories [OF len,
      of "snd (score_category YahtzeeScorecard_init ''yahtzee'' [5, 5, 5, 5, 5])"]
  have "\<exists>ps. calculate_possible_scores
              (snd (score_category YahtzeeScorecard_init ''yahtzee'' [5, 5, 5, 5, 5]))
              [2, 3, 4, 5, 6] = Inr ps
      \<and> (\<forall>c. c \<in> set (map fst ps) \<longleftrightarrow>
              c \<in> set categories
              \<and> stored_score (snd (score_category YahtzeeScorecard_init ''yahtzee'' [5, 5, 5, 5, 5])) c
                  = Some None)
      \<and> (stored_score (snd (score_category YahtzeeScorecard_init ''yahtzee'' [5, 5, 5, 5, 5]))
             ''chance'' = Some None
           \<longrightarrow> map_of ps ''chance'' = Some (sum_list [2, 3, 4, 5, 6]))"
    by (rule conjunct1)
  with len run stored show ?thesis by (intro conjI)
qed

text \<open>
  C4. For every roll of five dice with faces in 1..6 and a scorecard on which full_house
  is still open, \<open>calculate_possible_scores\<close> gives full_house 25 exactly when one face
  value occurs exactly three times, no other value does, and another value occurs
  twice; otherwise 0. Five of a kind gives 0. \<open>[3,3,3,6,6]\<close> gives 25 and
  \<open>[3,3,3,3,6]\<close> gives 0.
\<close>

theorem full_house_score:
  "(length ds = 5 \<and> (\<forall>x \<in> set ds. 1 \<le> x \<and> x \<le> 6) \<and> is_category_available sc ''full_house'' \<longrightarrow>
     (\<exists>ps. calculate_possible_scores sc ds = Inr ps
        \<and> map_of ps ''full_house'' =
            Some (if \<exists>v. count_list ds v = 3 \<and> (\<forall>u. count_list ds u = 3 \<longrightarrow> u = v)
                         \<and> (\<exists>w. w \<noteq> v \<and> count_list ds w = 2)
                  then 25 else 0)
        \<and> ((\<exists>v. count_list ds v = 5) \<longrightarrow> map_of ps ''full_house'' = Some 0)))
   \<and> (is_category_available sc ''full_house'' \<longrightarrow>
        (\<exists>ps. calculate_possible_scores sc [3, 3, 3, 6, 6] = Inr ps
           \<and> map_of ps ''full_house'' = Some 25)
      \<and> (\<exists>ps. calculate_possible_scores sc [3, 3, 3, 3, 6] = Inr ps
           \<and> map_of ps ''full_house'' = Some 0))"
proof (intro conjI impI)
  assume a: "length ds = 5 \<and> (\<forall>x \<in> set ds. 1 \<le> x \<and> x \<le> 6) \<and> is_category_available sc ''full_house''"
  then have len: "length ds = 5" and rng: "\<forall>x \<in> set ds. 1 \<le> x \<and> x \<le> 6"
    and av: "is_category_available sc ''full_house''" by simp_all
  let ?Q = "\<exists>v. count_list ds v = 3 \<and> (\<forall>u. count_list ds u = 3 \<longrightarrow> u = v)
                         \<and> (\<exists>w. w \<noteq> v \<and> count_list ds w = 2)"
  from possible_scores_Inr [OF len] obtain ps where
    ps: "calculate_possible_scores sc ds = Inr ps" by blast
  then have proj: "projr (calculate_possible_scores sc ds) = ps" by simp
  have three: "3 \<in> set (face_counts ds) \<longleftrightarrow> (\<exists>v. count_list ds v = 3)"
    using face_counts_mem [OF rng, of 3] by simp
  have two: "2 \<in> set (face_counts ds) \<longleftrightarrow> (\<exists>v. count_list ds v = 2)"
    using face_counts_mem [OF rng, of 2] by simp
  have once: "count_list (face_counts ds) 3 = 1 \<longleftrightarrow>
         (\<exists>v. count_list ds v = 3 \<and> (\<forall>u. count_list ds u = 3 \<longrightarrow> u = v))"
    using face_counts_once [OF rng, of 3] by simp
  have iff: "(3 \<in> set (face_counts ds) \<and> 2 \<in> set (face_counts ds)
                \<and> count_list (face_counts ds) 3 = 1) \<longleftrightarrow> ?Q"
    unfolding three two once by (metis numeral_eq_iff semiring_norm(88))
  have val: "map_of ps ''full_house'' = Some (if ?Q then 25 else 0)"
    using possible_scores_full_house [OF len av] by (simp only: proj iff)
  have five: "map_of ps ''full_house'' = Some 0" if "\<exists>v. count_list ds v = 5"
  proof -
    from that obtain v where v: "count_list ds v = 5" ..
    have "count_list ds u \<noteq> 3" for u
    proof (cases "u = v")
      case True
      with v show ?thesis by simp
    next
      case False
      from count_list_two [OF False, of ds] v len show ?thesis by simp
    qed
    then have "\<not> ?Q" by blast
    with val show ?thesis by simp
  qed
  from ps val five
  show "\<exists>ps. calculate_possible_scores sc ds = Inr ps
        \<and> map_of ps ''full_house'' = Some (if ?Q then 25 else 0)
        \<and> ((\<exists>v. count_list ds v = 5) \<longrightarrow> map_of ps ''full_house'' = Some 0)"
    by blast
next
  assume av: "is_category_available sc ''full_house''"
  have len: "length [3, 3, 3, 6, 6 :: int] = 5" by simp
  from possible_scores_Inr [OF len] obtain ps where
    ps: "calculate_possible_scores sc [3, 3, 3, 6, 6] = Inr ps" by blast
  then have proj: "projr (calculate_possible_scores sc [3, 3, 3, 6, 6]) = ps" by simp
  have "map_of ps ''full_house'' = Some 25"
    using possible_scores_full_house [OF len av]
    by (simp add: proj face_counts_def upto_rec1)
  with ps show "\<exists>ps. calculate_possible_scores sc [3, 3, 3, 6, 6] = Inr ps
           \<and> map_of ps ''full_house'' = Some 25" by blast
next
  assume av: "is_category_available sc ''full_house''"
  have len: "length [3, 3, 3, 3, 6 :: int] = 5" by simp
  from possible_scores_Inr [OF len] obtain ps where
    ps: "calculate_possible_scores sc [3, 3, 3, 3, 6] = Inr ps" by blast
  then have proj: "projr (calculate_possible_scores sc [3, 3, 3, 3, 6]) = ps" by simp
  have "map_of ps ''full_house'' = Some 0"
    using possible_scores_full_house [OF len av]
    by (simp add: proj face_counts_def upto_rec1)
  with ps show "\<exists>ps. calculate_possible_scores sc [3, 3, 3, 3, 6] = Inr ps
           \<and> map_of ps ''full_house'' = Some 0" by blast
qed

theorem full_house_score_witness:
  "(length [3, 3, 3, 6, 6 :: int] = 5 \<and> list_all (\<lambda>x. 1 \<le> x \<and> x \<le> 6) [3, 3, 3, 6, 6 :: int]
      \<and> is_category_available YahtzeeScorecard_init ''full_house'')
   \<and> (\<exists>ps. calculate_possible_scores YahtzeeScorecard_init [3, 3, 3, 6, 6] = Inr ps
         \<and> map_of ps ''full_house'' = Some 25)
   \<and> (\<exists>ps. calculate_possible_scores YahtzeeScorecard_init [3, 3, 3, 3, 6] = Inr ps
         \<and> map_of ps ''full_house'' = Some 0)
   \<and> map_of (projr (calculate_possible_scores YahtzeeScorecard_init [4, 4, 4, 4, 4])) ''full_house''
       = Some 0"
proof -
  have hyp: "length [3, 3, 3, 6, 6 :: int] = 5 \<and> list_all (\<lambda>x. 1 \<le> x \<and> x \<le> 6) [3, 3, 3, 6, 6 :: int]
      \<and> is_category_available YahtzeeScorecard_init ''full_house''"
    by code_simp
  then have av: "length [3, 3, 3, 6, 6 :: int] = 5 \<and> (\<forall>x \<in> set [3, 3, 3, 6, 6 :: int]. 1 \<le> x \<and> x \<le> 6)
      \<and> is_category_available YahtzeeScorecard_init ''full_house''"
    by (simp add: list_all_iff)
  have five: "map_of (projr (calculate_possible_scores YahtzeeScorecard_init [4, 4, 4, 4, 4]))
       ''full_house'' = Some 0"
    by code_simp
  from full_house_score [of "[3, 3, 3, 6, 6]" YahtzeeScorecard_init] av
  have "(\<exists>ps. calculate_possible_scores YahtzeeScorecard_init [3, 3, 3, 6, 6] = Inr ps
         \<and> map_of ps ''full_house'' = Some 25)
   \<and> (\<exists>ps. calculate_possible_scores YahtzeeScorecard_init [3, 3, 3, 3, 6] = Inr ps
         \<and> map_of ps ''full_house'' = Some 0)"
    by (elim conjE) (rule mp, assumption+)
  with hyp five show ?thesis by blast
qed

subsection \<open>Claims about \<open>score_category\<close>\<close>

text \<open>
  C8. When the category's stored score is not \<open>None\<close> (it is already committed, or it is
  not a category at all), \<open>score_category\<close> returns \<open>False\<close> and leaves the whole
  scorecard as it was, for any dice. After a call that returned \<open>True\<close>, the category
  holds the score computed for it, and any further call for the same category returns
  \<open>False\<close> and changes nothing, so the stored score stays.
\<close>

theorem commit_once:
  "(stored_score sc c \<noteq> Some None \<longrightarrow> score_category sc c ds = (Inr False, sc))
   \<and> (scorecard_ok sc \<and> score_category sc c ds = (Inr True, sc') \<longrightarrow>
        (\<exists>s. map_of (projr (calculate_possible_scores sc ds)) c = Some s
            \<and> stored_score sc' c = Some (Some s))
        \<and> (\<forall>ds'. score_category sc' c ds' = (Inr False, sc')))"
proof (intro conjI impI)
  assume "stored_score sc c \<noteq> Some None"
  then have "\<not> is_category_available sc c" by (simp add: available_stored)
  then show "score_category sc c ds = (Inr False, sc)"
    by (rule score_category_unavailable)
next
  assume a: "scorecard_ok sc \<and> score_category sc c ds = (Inr True, sc')"
  then have ok: "scorecard_ok sc" and res: "score_category sc c ds = (Inr True, sc')"
    by simp_all
  from score_category_True_available [OF res]
  have av: "is_category_available sc c" and len: "length ds = 5" by simp_all
  from score_category_available [OF ok len av] obtain s where
    s: "map_of (projr (calculate_possible_scores sc ds)) c = Some s" by blast
  from score_category_stored [OF ok res] s
  have st: "stored_score sc' c = Some (Some s)" by simp
  with s show "\<exists>s. map_of (projr (calculate_possible_scores sc ds)) c = Some s
            \<and> stored_score sc' c = Some (Some s)" by blast
  from st have "\<not> is_category_available sc' c" by (simp add: available_stored)
  then show "\<forall>ds'. score_category sc' c ds' = (Inr False, sc')"
    by (simp add: score_category_unavailable)
qed

theorem commit_once_witness:
  "scorecard_ok YahtzeeScorecard_init
   \<and> score_category YahtzeeScorecard_init ''fours'' [4, 4, 4, 2, 6]
       = (Inr True, YahtzeeScorecard_init\<lparr>upper_scores :=
            [(''ones'', None), (''twos'', None), (''threes'', None),
             (''fours'', Some 12), (''fives'', None), (''sixes'', None)]\<rparr>)
   \<and> stored_score (YahtzeeScorecard_init\<lparr>upper_scores :=
            [(''ones'', None), (''twos'', None), (''threes'', None),
             (''fours'', Some 12), (''fives'', None), (''sixes'', None)]\<rparr>) ''fours''
       = Some (Some 12)
   \<and> score_category (YahtzeeScorecard_init\<lparr>upper_scores :=
            [(''ones'', None), (''twos'', None), (''threes'', None),
             (''fours'', Some 12), (''fives'', None), (''sixes'', None)]\<rparr>) ''fours'' [4, 4, 4, 4, 4]
       = (Inr False, YahtzeeScorecard_init\<lparr>upper_scores :=
            [(''ones'', None), (''twos'', None), (''threes'', None),
             (''fours'', Some 12), (''fives'', None), (''sixes'', None)]\<rparr>)
   \<and> stored_score YahtzeeScorecard_init ''sevens'' \<noteq> Some None
   \<and> score_category YahtzeeScorecard_init ''sevens'' [4, 4, 4, 2, 6]
       = (Inr False, YahtzeeScorecard_init)"
proof -
  define sc1 where "sc1 = YahtzeeScorecard_init\<lparr>upper_scores :=
            [(''ones'', None), (''twos'', None), (''threes'', None),
             (''fours'', Some 12), (''fives'', None), (''sixes'', None)]\<rparr>"
  have ok: "scorecard_ok YahtzeeScorecard_init" by (rule scorecard_ok_init)
  have first: "score_category YahtzeeScorecard_init ''fours'' [4, 4, 4, 2, 6] = (Inr True, sc1)"
    unfolding sc1_def by code_simp
  have poss: "map_of (projr (calculate_possible_scores YahtzeeScorecard_init [4, 4, 4, 2, 6])) ''fours''
      = Some 12"
    by code_simp
  have none: "stored_score YahtzeeScorecard_init ''sevens'' \<noteq> Some None" by code_simp
  from commit_once [of YahtzeeScorecard_init "''fours''" "[4, 4, 4, 2, 6]" sc1] ok first poss
  have "stored_score sc1 ''fours'' = Some (Some 12)"
    and "score_category sc1 ''fours'' [4, 4, 4, 4, 4] = (Inr False, sc1)"
    by auto
  moreover from commit_once [of YahtzeeScorecard_init "''sevens''" "[4, 4, 4, 2, 6]"] none
  have "score_category YahtzeeScorecard_init ''sevens'' [4, 4, 4, 2, 6]
       = (Inr False, YahtzeeScorecard_init)"
    by blast
  ultimately show ?thesis using ok first none unfolding sc1_def by (intro conjI)
qed

lemma commit_chance:
  assumes ok: "scorecard_ok sc"
    and yz: "stored_score sc ''yahtzee'' = Some (Some 50)"
    and ch: "stored_score sc ''chance'' = Some None"
    and len: "length ds = 5"
  shows "\<exists>sc'. score_category sc ''chance'' ds = (Inr True, sc')
       \<and> stored_score sc' ''chance'' = Some (Some (sum_list ds))
       \<and> yahtzee_bonus_count sc' = yahtzee_bonus_count sc
            + (if \<exists>v \<in> {1..6}. count_list ds v = 5 then 1 else 0)
       \<and> calculate_grand_total sc' = calculate_grand_total sc + sum_list ds
            + (if \<exists>v \<in> {1..6}. count_list ds v = 5 then 100 else 0)"
proof -
  have av: "is_category_available sc ''chance''" using ch by (simp add: available_stored)
  have nu: "''chance'' \<notin> set upper_names" "''yahtzee'' \<notin> set upper_names"
    by (simp_all add: upper_names_def)
  have ly: "map_of (lower_scores sc) ''yahtzee'' = Some (Some 50)"
    using yz nu by (simp add: ok_stored [OF ok])
  have lc: "map_of (lower_scores sc) ''chance'' = Some None"
    using ch nu by (simp add: ok_stored [OF ok])
  have dl: "distinct (map fst (lower_scores sc))"
    using ok by (simp add: scorecard_ok_def lower_names_def)
  define b :: int where "b = (if \<exists>v \<in> {1..6}. count_list ds v = 5 then 1 else 0)"
  define sc' where "sc' = sc\<lparr>lower_scores := dict_set (lower_scores sc) ''chance'' (Some (sum_list ds)),
       yahtzee_bonus_count := yahtzee_bonus_count sc + b\<rparr>"
  from score_category_available [OF ok len av] possible_scores_chance [OF len av]
  have res: "score_category sc ''chance'' ds = (Inr True, sc')"
    by (simp add: nu ly max_face_counts [OF len] sc'_def b_def)
  from score_category_stored [OF ok res] possible_scores_chance [OF len av]
  have st: "stored_score sc' ''chance'' = Some (Some (sum_list ds))" by simp
  have bc: "yahtzee_bonus_count sc' = yahtzee_bonus_count sc + b" by (simp add: sc'_def)
  have lt: "calculate_lower_total sc' = calculate_lower_total sc + sum_list ds"
    by (simp add: calculate_lower_total_def sc'_def sum_scores_dict_set [OF lc dl])
  have ut: "calculate_upper_total sc' = calculate_upper_total sc"
    by (simp add: calculate_upper_total_def sc'_def)
  have gt: "calculate_grand_total sc' = calculate_grand_total sc + sum_list ds + b * 100"
    by (simp add: calculate_grand_total_def calculate_upper_bonus_def calculate_yahtzee_bonus_def
        lt ut bc algebra_simps)
  have "b * 100 = (if \<exists>v \<in> {1..6}. count_list ds v = 5 then 100 else 0)"
    by (simp add: b_def)
  with res st bc gt show ?thesis unfolding b_def by auto
qed

text \<open>
  C3, as the code has it. On a scorecard where yahtzee holds 50 and chance is open,
  committing five dice to chance succeeds and stores their sum; the bonus count goes up
  by one, and the grand total by 100 more than the sum, exactly when one of the faces
  1..6 occurs five times. The roll \<open>[5,5,5,5,2]\<close> is four of a kind: it stores 22, leaves
  the bonus count as it was and adds 22 to the grand total. The roll \<open>[5,5,5,5,5]\<close>
  stores 25, raises the bonus count by one and adds 25 + 100.
\<close>

theorem yahtzee_bonus_on_chance:
  "scorecard_ok sc \<Longrightarrow> stored_score sc ''yahtzee'' = Some (Some 50) \<Longrightarrow>
   stored_score sc ''chance'' = Some None \<Longrightarrow>
   (\<forall>ds. length ds = 5 \<longrightarrow>
      (\<exists>sc'. score_category sc ''chance'' ds = (Inr True, sc')
         \<and> stored_score sc' ''chance'' = Some (Some (sum_list ds))
         \<and> yahtzee_bonus_count sc' = yahtzee_bonus_count sc
              + (if \<exists>v \<in> {1..6}. count_list ds v = 5 then 1 else 0)
         \<and> calculate_grand_total sc' = calculate_grand_total sc + sum_list ds
              + (if \<exists>v \<in> {1..6}. count_list ds v = 5 then 100 else 0)))
   \<and> (\<exists>sc'. score_category sc ''chance'' [5, 5, 5, 5, 2] = (Inr True, sc')
         \<and> stored_score sc' ''chance'' = Some (Some 22)
         \<and> yahtzee_bonus_count sc' = yahtzee_bonus_count sc
         \<and> calculate_grand_total sc' = calculate_grand_total sc + 22)
   \<and> (\<exists>sc'. score_category sc ''chance'' [5, 5, 5, 5, 5] = (Inr True, sc')
         \<and> stored_score sc' ''chance'' = Some (Some 25)
         \<and> yahtzee_bonus_count sc' = yahtzee_bonus_count sc + 1
         \<and> calculate_grand_total sc' = calculate_grand_total sc + 25 + 100)"
proof -
  assume ok: "scorecard_ok sc"
    and yz: "stored_score sc ''yahtzee'' = Some (Some 50)"
    and ch: "stored_score sc ''chance'' = Some None"
  have four: "\<not> (\<exists>v \<in> {1..6}. count_list [5, 5, 5, 5, 2 :: int] v = 5)" by auto
  have five: "\<exists>v \<in> {1..6}. count_list [5, 5, 5, 5, 5 :: int] v = 5" by auto
  have g: "\<forall>ds. length ds = 5 \<longrightarrow>
      (\<exists>sc'. score_category sc ''chance'' ds = (Inr True, sc')
         \<and> stored_score sc' ''chance'' = Some (Some (sum_list ds))
         \<and> yahtzee_bonus_count sc' = yahtzee_bonus_count sc
              + (if \<exists>v \<in> {1..6}. count_list ds v = 5 then 1 else 0)
         \<and> calculate_grand_total sc' = calculate_grand_total sc + sum_list ds
              + (if \<exists>v \<in> {1..6}. count_list ds v = 5 then 100 else 0))"
    using commit_chance [OF ok yz ch] by blast
  have i1: "\<exists>sc'. score_category sc ''chance'' [5, 5, 5, 5, 2] = (Inr True, sc')
         \<and> stored_score sc' ''chance'' = Some (Some 22)
         \<and> yahtzee_bonus_count sc' = yahtzee_bonus_count sc
         \<and> calculate_grand_total sc' = calculate_grand_total sc + 22"
    using commit_chance [OF ok yz ch, of "[5, 5, 5, 5, 2]"] four by simp
  have i2: "\<exists>sc'. score_category sc ''chance'' [5, 5, 5, 5, 5] = (Inr True, sc')
         \<and> stored_score sc' ''chance'' = Some (Some 25)
         \<and> yahtzee_bonus_count sc' = yahtzee_bonus_count sc + 1
         \<and> calculate_grand_total sc' = calculate_grand_total sc + 25 + 100"
    using commit_chance [OF ok yz ch, of "[5, 5, 5, 5, 5]"] five by simp
  from g i1 i2 show ?thesis by (intro conjI)
qed

theorem yahtzee_bonus_on_chance_witness:
  "scorecard_ok
      \<lparr>upper_scores =
          [(''ones'', None), (''twos'', None), (''threes'', None),
           (''fours'', None), (''fives'', None), (''sixes'', None)],
        lower_scores =
          [(''three_of_kind'', None), (''four_of_kind'', None), (''full_house'', None),
           (''small_straight'', None), (''large_straight'', None), (''yahtzee'', Some 50),
           (''chance'', None)],
        yahtzee_bonus_count = 0\<rparr>
   \<and> stored_score
      \<lparr>upper_scores =
          [(''ones'', None), (''twos'', None), (''threes'', None),
           (''fours'', None), (''fives'', None), (''sixes'', None)],
        lower_scores =
          [(''three_of_kind'', None), (''four_of_kind'', None), (''full_house'', None),
           (''small_straight'', None), (''large_straight'', None), (''yahtzee'', Some 50),
           (''chance'', None)],
        yahtzee_bonus_count = 0\<rparr> ''yahtzee'' = Some (Some 50)
   \<and> stored_score
      \<lparr>upper_scores =
          [(''ones'', None), (''twos'', None), (''threes'', None),
           (''fours'', None), (''fives'', None), (''sixes'', None)],
        lower_scores =
          [(''three_of_kind'', None), (''four_of_kind'', None), (''full_house'', None),
           (''small_straight'', None), (''large_straight'', None), (''yahtzee'', Some 50),
           (''chance'', None)],
        yahtzee_bonus_count = 0\<rparr> ''chance'' = Some None
   \<and> (\<exists>sc'. score_category
      \<lparr>upper_scores =
          [(''ones'', None), (''twos'', None), (''threes'', None),
           (''fours'', None), (''fives'', None), (''sixes'', None)],
        lower_scores =
          [(''three_of_kind'', None), (''four_of_kind'', None), (''full_house'', None),
           (''small_straight'', None), (''large_straight'', None), (''yahtzee'', Some 50),
           (''chance'', None)],
        yahtzee_bonus_count = 0\<rparr> ''chance'' [5, 5, 5, 5, 5] = (Inr True, sc')
         \<and> stored_score sc' ''chance'' = Some (Some 25)
         \<and> yahtzee_bonus_count sc' = 1
         \<and> calculate_grand_total sc' = 175)"
proof -
  define sc0 where "sc0 =
      \<lparr>upper_scores =
          [(''ones'', None), (''twos'', None), (''threes'', None),
           (''fours'', None), (''fives'', None), (''sixes'', None)],
        lower_scores =
          [(''three_of_kind'', None), (''four_of_kind'', None), (''full_house'', None),
           (''small_straight'', None), (''large_straight'', None), (''yahtzee'', Some 50),
           (''chance'', None)],
        yahtzee_bonus_count = 0\<rparr>"
  have ok: "scorecard_ok sc0" unfolding sc0_def by code_simp
  have yz: "stored_score sc0 ''yahtzee'' = Some (Some 50)" unfolding sc0_def by code_simp
  have ch: "stored_score sc0 ''chance'' = Some None" unfolding sc0_def by code_simp
  have b0: "yahtzee_bonus_count sc0 = 0" by (simp add: sc0_def)
  have g0: "calculate_grand_total sc0 = 50" unfolding sc0_def by code_simp
  from yahtzee_bonus_on_chance [OF ok yz ch]
  have "\<exists>sc'. score_category sc0 ''chance'' [5, 5, 5, 5, 5] = (Inr True, sc')
         \<and> stored_score sc' ''chance'' = Some (Some 25)
         \<and> yahtzee_bonus_count sc' = yahtzee_bonus_count sc0 + 1
         \<and> calculate_grand_total sc' = calculate_grand_total sc0 + 25 + 100"
    by blast
  then have "\<exists>sc'. score_category sc0 ''chance'' [5, 5, 5, 5, 5] = (Inr True, sc')
         \<and> stored_score sc' ''chance'' = Some (Some 25)
         \<and> yahtzee_bonus_count sc' = 1
         \<and> calculate_grand_total sc' = 175"
    by (simp add: b0 g0)
  with ok yz ch show ?thesis unfolding sc0_def by (intro conjI)
qed

text \<open>
  C3, as the spec states it, fails: after yahtzee is committed with \<open>[5,5,5,5,5]\<close> for
  50, committing \<open>[5,5,5,5,2]\<close> to chance succeeds but the bonus count stays 0 and the
  grand total goes from 50 to 72, not up by 100.
\<close>

theorem four_of_a_kind_earns_no_bonus:
  "score_category YahtzeeScorecard_init ''yahtzee'' [5, 5, 5, 5, 5] =
     (Inr True,
      \<lparr>upper_scores =
          [(''ones'', None), (''twos'', None), (''threes'', None),
           (''fours'', None), (''fives'', None), (''sixes'', None)],
        lower_scores =
          [(''three_of_kind'', None), (''four_of_kind'', None), (''full_house'', None),
           (''small_straight'', None), (''large_straight'', None), (''yahtzee'', Some 50),
           (''chance'', None)],
        yahtzee_bonus_count = 0\<rparr>)
   \<and> score_category
      \<lparr>upper_scores =
          [(''ones'', None), (''twos'', None), (''threes'', None),
           (''fours'', None), (''fives'', None), (''sixes'', None)],
        lower_scores =
          [(''three_of_kind'', None), (''four_of_kind'', None), (''full_house'', None),
           (''small_straight'', None), (''large_straight'', None), (''yahtzee'', Some 50),
           (''chance'', None)],
        yahtzee_bonus_count = 0\<rparr> ''chance'' [5, 5, 5, 5, 2] =
     (Inr True,
      \<lparr>upper_scores =
          [(''ones'', None), (''twos'', None), (''threes'', None),
           (''fours'', None), (''fives'', None), (''sixes'', None)],
        lower_scores =
          [(''three_of_kind'', None), (''four_of_kind'', None), (''full_house'', None),
           (''small_straight'', None), (''large_straight'', None), (''yahtzee'', Some 50),
           (''chance'', Some 22)],
        yahtzee_bonus_count = 0\<rparr>)
   \<and> calculate_grand_total
      \<lparr>upper_scores =
          [(''ones'', None), (''twos'', None), (''threes'', None),
           (''fours'', None), (''fives'', None), (''sixes'', None)],
        lower_scores =
          [(''three_of_kind'', None), (''four_of_kind'', None), (''full_house'', None),
           (''small_straight'', None), (''large_straight'', None), (''yahtzee'', Some 50),
           (''chance'', None)],
        yahtzee_bonus_count = 0\<rparr> = 50
   \<and> calculate_grand_total
      \<lparr>upper_scores =
          [(''ones'', None), (''twos'', None), (''threes'', None),
           (''fours'', None), (''fives'', None), (''sixes'', None)],
        lower_scores =
          [(''three_of_kind'', None), (''four_of_kind'', None), (''full_house'', None),
           (''small_straight'', None), (''large_straight'', None), (''yahtzee'', Some 50),
           (''chance'', Some 22)],
        yahtzee_bonus_count = 0\<rparr> = 72"
  by code_simp

section \<open>Properties of the game\<close>

lemma length_5_shape:
  assumes "length xs = 5"
  obtains a b c d e where "xs = [a, b, c, d, e]"
proof -
  from assms obtain a xs1 where "xs = a # xs1" "length xs1 = 4" by (cases xs) auto
  moreover then obtain b xs2 where "xs1 = b # xs2" "length xs2 = 3" by (cases xs1) auto
  moreover then obtain c xs3 where "xs2 = c # xs3" "length xs3 = 2" by (cases xs2) auto
  moreover then obtain d xs4 where "xs3 = d # xs4" "length xs4 = 1" by (cases xs3) auto
  moreover then obtain e where "xs4 = [e]" by (cases xs4) auto
  ultimately show ?thesis using that by simp
qed

lemma roll_all_loop_five:
  assumes "length ds = 5"
  shows "roll_all_loop rnd [0..<5] ds = (Inr (), map rnd [0..<5])"
proof -
  from assms obtain a b c d e where "ds = [a, b, c, d, e]" by (rule length_5_shape)
  then show ?thesis by (simp add: upt_rec)
qed

lemma roll_all_five:
  assumes "length (dice d) = 5" and "0 < rolls_remaining d"
  shows "roll_all rnd d =
    (Inr (map rnd [0..<5]), d\<lparr>dice := map rnd [0..<5], rolls_remaining := rolls_remaining d - 1\<rparr>)"
  using assms by (simp add: roll_all_def roll_all_loop_five)

lemma game_start_new_turn_ok:
  assumes "length (dice (game_dice g)) = 5" and "\<not> game_complete g"
  shows "game_start_new_turn rnd g =
     (Inr (), g\<lparr>game_dice := \<lparr>dice = map rnd [0..<5], rolls_remaining = 2\<rparr>\<rparr>)"
proof -
  have "roll_all rnd (start_new_turn (game_dice g)) =
     (Inr (map rnd [0..<5]), \<lparr>dice = map rnd [0..<5], rolls_remaining = 2\<rparr>)"
    using roll_all_five [of "start_new_turn (game_dice g)" rnd] assms(1)
    by (simp add: start_new_turn_def)
  with assms(2) show ?thesis by (simp add: game_start_new_turn_def)
qed

lemma roll_dice_keeps:
  "scorecard (snd (roll_dice rnd ks g)) = scorecard g
   \<and> game_complete (snd (roll_dice rnd ks g)) = game_complete g
   \<and> current_turn (snd (roll_dice rnd ks g)) = current_turn g"
  by (auto simp: roll_dice_def split: option.splits prod.splits)

lemma roll_dice_complete:
  "game_complete g \<Longrightarrow> roll_dice rnd ks g = (Inl GameAlreadyComplete, g)"
  by (simp add: roll_dice_def)

text \<open>What \<open>game_score_category\<close> does to a game as the constructor and the methods leave it.\<close>

lemma game_score_category_cases:
  assumes ok: "game_ok g"
  shows "game_score_category rnd g c =
     (if game_complete g \<or> \<not> is_category_available (scorecard g) c then (Inr False, g)
      else
        (let sc = snd (score_category (scorecard g) c (dice (game_dice g)));
             g2 = g\<lparr>scorecard := sc, current_turn := current_turn g + 1\<rparr>
         in if current_turn g + 1 > max_turns g \<or> is_complete sc
            then (Inr True, g2\<lparr>game_complete := True\<rparr>)
            else (Inr True, g2\<lparr>game_dice := \<lparr>dice = map rnd [0..<5], rolls_remaining = 2\<rparr>\<rparr>)))"
proof (cases "game_complete g \<or> \<not> is_category_available (scorecard g) c")
  case True
  then show ?thesis
    by (auto simp: game_score_category_def score_category_unavailable get_dice_def)
next
  case False
  then have nc: "\<not> game_complete g" and av: "is_category_available (scorecard g) c" by simp_all
  from ok have sok: "scorecard_ok (scorecard g)" and len: "length (dice (game_dice g)) = 5"
    by (simp_all add: game_ok_def)
  from score_category_available [OF sok len av] obtain sc where
    sc: "score_category (scorecard g) c (dice (game_dice g)) = (Inr True, sc)" by blast
  define g2 where "g2 = g\<lparr>scorecard := sc, current_turn := current_turn g + 1\<rparr>"
  have st: "game_start_new_turn rnd g2 =
     (Inr (), g2\<lparr>game_dice := \<lparr>dice = map rnd [0..<5], rolls_remaining = 2\<rparr>\<rparr>)"
    by (rule game_start_new_turn_ok) (simp_all add: g2_def len nc)
  show ?thesis
    using nc av st
    by (simp add: game_score_category_def get_dice_def sc Let_def g2_def)
qed

section \<open>Properties of the server\<close>

lemma map_of_dict_set_same: "map_of (dict_set d k v) k = Some v"
  by (simp add: map_of_dict_set)

lemma handle_create_room:
  "\<exists>st. map_of (snd (handle_create rooms code name)) code = Some st
      \<and> players st = [name] \<and> scores st = [(name, YahtzeeGame_init name)]
      \<and> turn_index st = 0 \<and> winner st = None"
  by (simp add: handle_create_def GameState_init_def map_of_dict_set Let_def)

lemma handle_join_room:
  assumes "map_of rooms code = Some room" and "\<not> is_full room"
  shows "\<exists>st. handle_join rooms code name = (Joined code, dict_set rooms code st)
      \<and> map_of (snd (handle_join rooms code name)) code = Some st
      \<and> players st = players room @ [name]
      \<and> scores st = dict_set (scores room) name (YahtzeeGame_init name)
      \<and> turn_index st = turn_index room \<and> winner st = winner room"
  using assms by (simp add: handle_join_def map_of_dict_set Let_def)

text \<open>
  C10. The game that \<^verbatim>\<open>YahtzeeGame(name)\<close> makes, which is the game a room holds for a
  player right after create or join, shows five ones, has three rolls left, is at turn 1
  and is not complete: nothing is rolled at creation. \<open>game_score_category\<close> rolls all
  five dice (leaving two rolls) exactly when the commit succeeded and the game goes on;
  in every other case it leaves the dice set as it was.
\<close>

theorem fresh_game_unrolled:
  "(dice (game_dice (YahtzeeGame_init name)) = [1, 1, 1, 1, 1]
      \<and> rolls_remaining (game_dice (YahtzeeGame_init name)) = 3
      \<and> current_turn (YahtzeeGame_init name) = 1
      \<and> \<not> game_complete (YahtzeeGame_init name))
   \<and> (\<exists>st. map_of (snd (handle_create rooms code name)) code = Some st
         \<and> map_of (scores st) name = Some (YahtzeeGame_init name))
   \<and> (map_of rooms code = Some room \<and> \<not> is_full room \<longrightarrow>
        (\<exists>st. map_of (snd (handle_join rooms code name)) code = Some st
           \<and> map_of (scores st) name = Some (YahtzeeGame_init name)))
   \<and> (game_ok g \<longrightarrow>
        (\<exists>r g'. game_score_category rnd g c = (r, g')
           \<and> (r = Inr True \<and> \<not> game_complete g' \<longrightarrow>
                game_dice g' = \<lparr>dice = map rnd [0..<5], rolls_remaining = 2\<rparr>)
           \<and> (\<not> (r = Inr True \<and> \<not> game_complete g') \<longrightarrow> game_dice g' = game_dice g)))"
proof (intro conjI impI)
  show "\<exists>st. map_of (snd (handle_create rooms code name)) code = Some st
         \<and> map_of (scores st) name = Some (YahtzeeGame_init name)"
    using handle_create_room [of rooms code name] by auto
next
  assume "map_of rooms code = Some room \<and> \<not> is_full room"
  then show "\<exists>st. map_of (snd (handle_join rooms code name)) code = Some st
           \<and> map_of (scores st) name = Some (YahtzeeGame_init name)"
    using handle_join_room [of rooms code room name] by (auto simp: map_of_dict_set)
next
  assume ok: "game_ok g"
  show "\<exists>r g'. game_score_category rnd g c = (r, g')
           \<and> (r = Inr True \<and> \<not> game_complete g' \<longrightarrow>
                game_dice g' = \<lparr>dice = map rnd [0..<5], rolls_remaining = 2\<rparr>)
           \<and> (\<not> (r = Inr True \<and> \<not> game_complete g') \<longrightarrow> game_dice g' = game_dice g)"
    unfolding game_score_category_cases [OF ok]
    by (auto simp: Let_def)
qed (simp_all add: YahtzeeGame_init_def YahtzeeDice_init_def)

theorem fresh_game_unrolled_witness:
  "game_ok (YahtzeeGame_init ''A'')
   \<and> map_of (snd (handle_create [] ''1234'' ''A'')) ''1234''
       = Some \<lparr>room_code = ''1234'', players = [''A''],
               scores = [(''A'', YahtzeeGame_init ''A'')], turn_index = 0, ready = False,
               final_scores = [], winner = None, keep = None\<rparr>
   \<and> \<not> is_full \<lparr>room_code = ''1234'', players = [''A''],
               scores = [(''A'', YahtzeeGame_init ''A'')], turn_index = 0, ready = False,
               final_scores = [], winner = None, keep = None\<rparr>
   \<and> (\<exists>st. map_of (snd (handle_join (snd (handle_create [] ''1234'' ''A'')) ''1234'' ''B'')) ''1234''
              = Some st
         \<and> map_of (scores st) ''B'' = Some (YahtzeeGame_init ''B''))
   \<and> (\<exists>g'. game_score_category (\<lambda>k. 6) (YahtzeeGame_init ''A'') ''ones'' = (Inr True, g')
         \<and> \<not> game_complete g'
         \<and> game_dice g' = \<lparr>dice = [6, 6, 6, 6, 6], rolls_remaining = 2\<rparr>)
   \<and> (\<exists>g'. game_score_category (\<lambda>k. 6) (YahtzeeGame_init ''A'') ''sevens'' = (Inr False, g')
         \<and> game_dice g' = \<lparr>dice = [1, 1, 1, 1, 1], rolls_remaining = 3\<rparr>)"
proof -
  define room where "room = \<lparr>room_code = ''1234'', players = [''A''],
               scores = [(''A'', YahtzeeGame_init ''A'')], turn_index = 0, ready = False,
               final_scores = [], winner = None, keep = None\<rparr>"
  have ok: "game_ok (YahtzeeGame_init ''A'')" by code_simp
  have created: "map_of (snd (handle_create [] ''1234'' ''A'')) ''1234'' = Some room"
    unfolding room_def by code_simp
  have notfull: "\<not> is_full room" unfolding room_def by code_simp
  have r1: "fst (game_score_category (\<lambda>k. 6) (YahtzeeGame_init ''A'') ''ones'') = Inr True
      \<and> \<not> game_complete (snd (game_score_category (\<lambda>k. 6) (YahtzeeGame_init ''A'') ''ones''))"
    by code_simp
  have r2: "fst (game_score_category (\<lambda>k. 6) (YahtzeeGame_init ''A'') ''sevens'') = Inr False"
    by code_simp
  have d0: "game_dice (YahtzeeGame_init ''A'') = \<lparr>dice = [1, 1, 1, 1, 1], rolls_remaining = 3\<rparr>"
    by (simp add: YahtzeeGame_init_def YahtzeeDice_init_def)
  have m: "map (\<lambda>k. 6) [0..<5] = [6, 6, 6, 6, 6 :: int]" by (simp add: upt_rec)
  from fresh_game_unrolled [of "''B''" "snd (handle_create [] ''1234'' ''A'')" "''1234''" room
      "YahtzeeGame_init ''A''" "\<lambda>k. 6" "''ones''"] created notfull
  have j: "\<exists>st. map_of (snd (handle_join (snd (handle_create [] ''1234'' ''A'')) ''1234'' ''B''))
              ''1234'' = Some st
         \<and> map_of (scores st) ''B'' = Some (YahtzeeGame_init ''B'')"
    by blast
  from fresh_game_unrolled [of "''A''" "[]" "''1234''" room
      "YahtzeeGame_init ''A''" "\<lambda>k. 6" "''ones''"] ok r1
  have s1: "\<exists>g'. game_score_category (\<lambda>k. 6) (YahtzeeGame_init ''A'') ''ones'' = (Inr True, g')
         \<and> \<not> game_complete g'
         \<and> game_dice g' = \<lparr>dice = [6, 6, 6, 6, 6], rolls_remaining = 2\<rparr>"
    by (auto simp: m)
  from fresh_game_unrolled [of "''A''" "[]" "''1234''" room
      "YahtzeeGame_init ''A''" "\<lambda>k. 6" "''sevens''"] ok r2
  have s2: "\<exists>g'. game_score_category (\<lambda>k. 6) (YahtzeeGame_init ''A'') ''sevens'' = (Inr False, g')
         \<and> game_dice g' = \<lparr>dice = [1, 1, 1, 1, 1], rolls_remaining = 3\<rparr>"
    by (auto simp: d0)
  from ok created notfull j s1 s2 show ?thesis unfolding room_def by (intro conjI)
qed

section \<open>Properties of the command handler\<close>

lemma dict_set_same: "map_of d k = Some v \<Longrightarrow> dict_set d k v = d"
  by (induction d) (auto split: if_splits)

lemma dict_set_nonempty: "dict_set d k v \<noteq> []"
  by (cases d) (auto split: if_splits)

lemma next_turn_players:
  "players st \<noteq> [] \<Longrightarrow>
     next_turn st = (Inr (), st\<lparr>turn_index := (turn_index st + 1) mod int (length (players st))\<rparr>)"
  by (simp add: next_turn_def)

lemma next_turn_no_players:
  "players st = [] \<Longrightarrow> next_turn st = (Inl ZeroDivisionError, st)"
  by (simp add: next_turn_def)

lemma set_winner_if_done_fields:
  "turn_index (snd (set_winner_if_done st)) = turn_index st
   \<and> players (snd (set_winner_if_done st)) = players st
   \<and> scores (snd (set_winner_if_done st)) = scores st"
  by (simp add: set_winner_if_done_def Let_def split: sum.splits)

lemma set_winner_if_done_returns:
  "scores st \<noteq> [] \<Longrightarrow> fst (set_winner_if_done st) = Inr ()"
  by (cases "scores st")
     (simp_all add: set_winner_if_done_def Let_def dict_max_key_def score_totals_def
        split: sum.splits)

lemma after_score_players:
  assumes "players st \<noteq> []"
  shows "turn_index (snd (after_score st)) = (turn_index st + 1) mod int (length (players st))
   \<and> players (snd (after_score st)) = players st
   \<and> scores (snd (after_score st)) = scores st
   \<and> (scores st \<noteq> [] \<longrightarrow> fst (after_score st) = Inr ())"
  using assms
  by (simp add: after_score_def next_turn_def set_winner_if_done_fields
       set_winner_if_done_returns)

lemma after_score_no_players:
  assumes "players st = []"
  shows "after_score st = (Inl ZeroDivisionError, st\<lparr>keep := Some (replicate 5 False)\<rparr>)"
  using assms by (simp add: after_score_def next_turn_def)

lemma command_on_room_roll:
  "turn_index (snd (command_on_room rnd st p (Roll kf))) = turn_index st
   \<and> players (snd (command_on_room rnd st p (Roll kf))) = players st"
  by (simp add: command_on_room_def split: option.splits prod.splits sum.splits)

lemma command_on_room_other:
  "command_on_room rnd st p (OtherCommand other) =
     (case map_of (scores st) p of None \<Rightarrow> (Inl (KeyError p), st) | Some g \<Rightarrow> (Inr (), st))"
  by (simp add: command_on_room_def split: option.splits)

lemma command_on_room_score:
  "command_on_room rnd st p (Score c) =
     (case map_of (scores st) p of
        None \<Rightarrow> (Inl (KeyError p), st)
      | Some g \<Rightarrow>
         (case fst (game_score_category rnd g c) of
            Inl e \<Rightarrow> (Inl e, st\<lparr>scores := dict_set (scores st) p (snd (game_score_category rnd g c))\<rparr>)
          | Inr b \<Rightarrow> after_score (st\<lparr>scores := dict_set (scores st) p (snd (game_score_category rnd g c))\<rparr>)))"
  by (simp add: command_on_room_def split: option.splits prod.splits sum.splits)

lemma command_on_room_score_turn:
  "turn_index (snd (command_on_room rnd st p (Score c))) =
     (if players st \<noteq> []
         \<and> (\<exists>g b. map_of (scores st) p = Some g \<and> fst (game_score_category rnd g c) = Inr b)
      then (turn_index st + 1) mod int (length (players st)) else turn_index st)"
  by (cases "players st = []")
     (auto simp: command_on_room_score after_score_players after_score_no_players
        split: option.splits sum.splits)

lemma command_on_room_score_returns:
  assumes "players st \<noteq> []" and "map_of (scores st) p = Some g"
    and "fst (game_score_category rnd g c) = Inr b"
  shows "fst (command_on_room rnd st p (Score c)) = Inr ()"
  using assms by (simp add: command_on_room_score after_score_players dict_set_nonempty)

lemma handle_command_room:
  assumes "map_of rooms code = Some st"
  shows "handle_command rnd rooms code p cmd =
     (fst (command_on_room rnd st p cmd), dict_set rooms code (snd (command_on_room rnd st p cmd)))"
  using assms by (simp add: handle_command_def split: prod.splits)

lemma handle_command_no_room:
  assumes "map_of rooms code = None"
  shows "handle_command rnd rooms code p cmd = (Inl (KeyError code), rooms)"
  using assms by (simp add: handle_command_def)

lemma command_on_room_score_returns_iff:
  "(fst (command_on_room rnd st p (Score c)) = Inr ()) =
     (players st \<noteq> []
      \<and> (\<exists>g b. map_of (scores st) p = Some g \<and> fst (game_score_category rnd g c) = Inr b))"
proof (cases "map_of (scores st) p")
  case None
  then show ?thesis by (simp add: command_on_room_score)
next
  case (Some g)
  show ?thesis
  proof (cases "fst (game_score_category rnd g c)")
    case (Inl e)
    then show ?thesis by (simp add: command_on_room_score Some)
  next
    case (Inr b)
    show ?thesis
    proof (cases "players st = []")
      case True
      then show ?thesis
        by (simp add: command_on_room_score Some Inr after_score_no_players)
    next
      case False
      with command_on_room_score_returns [OF False Some Inr] Some Inr show ?thesis by simp
    qed
  qed
qed

lemma map_of_delete:
  "map_of (filter (\<lambda>(c, st). c \<noteq> code) rooms) k = (if k = code then None else map_of rooms k)"
  by (induction rooms) auto

text \<open>Only a score command for a room changes its \<open>turn_index\<close>.\<close>

lemma handle_keeps_turn_index:
  assumes "\<not> is_score_for code req" and "\<not> makes_or_deletes code req"
  shows "map_option turn_index (map_of (handle rooms req) code)
       = map_option turn_index (map_of rooms code)"
proof (cases req)
  case (Create code' name)
  with assms(2) show ?thesis by (simp add: handle_create_def map_of_dict_set Let_def)
next
  case (Join code' name)
  then show ?thesis
    by (auto simp: handle_join_def map_of_dict_set Let_def split: option.splits)
next
  case (Command rnd code' player cmd)
  show ?thesis
  proof (cases "map_of rooms code'")
    case None
    then show ?thesis by (simp add: Command handle_command_no_room)
  next
    case (Some st)
    show ?thesis
    proof (cases "code' = code")
      case False
      then show ?thesis by (simp add: Command handle_command_room [OF Some] map_of_dict_set)
    next
      case True
      show ?thesis
      proof (cases cmd)
        case (Roll kf)
        with Some True show ?thesis
          by (simp add: Command handle_command_room map_of_dict_set command_on_room_roll)
      next
        case (Score c)
        with assms(1) Command True show ?thesis by simp
      next
        case (OtherCommand other)
        with Some True show ?thesis
          by (simp add: Command handle_command_room map_of_dict_set command_on_room_other
                split: option.splits)
      qed
    qed
  qed
next
  case (Delete code')
  with assms(2) show ?thesis by (simp add: map_of_delete)
qed

lemma run_keeps_turn_index:
  "list_all (\<lambda>req. \<not> is_score_for code req \<and> \<not> makes_or_deletes code req) reqs \<Longrightarrow>
     map_option turn_index (map_of (foldl handle rooms reqs) code)
       = map_option turn_index (map_of rooms code)"
  by (induction reqs arbitrary: rooms) (simp_all add: handle_keeps_turn_index)

text \<open>
  C2 (as the handler has it). The \<open>turn_index\<close> of a room changes only by a score
  command for that room: after every run of requests of which none is a score command
  for the room (and none makes the room anew or deletes it) it is what it was; so a roll
  command, any other command, a join and a command for another room never change it.
  A score command for the room sets it to \<open>(turn_index + 1) mod |players|\<close> exactly when
  the handler returns normally, and the handler returns normally exactly when the room
  has a player, the named player has a game in the room and \<^verbatim>\<open>game.score_category\<close>
  returns, with either result: the handler does not read the result, so a commit that
  returns \<open>False\<close> advances the turn as well. When the handler raises, \<open>turn_index\<close> is
  left as it was.
\<close>

theorem turn_index_changes:
  assumes "map_of rooms code = Some st"
  shows "(list_all (\<lambda>req. \<not> is_score_for code req \<and> \<not> makes_or_deletes code req) reqs
      \<longrightarrow> map_option turn_index (map_of (foldl handle rooms reqs) code) = Some (turn_index st))
   \<and> (\<exists>st'. map_of (snd (handle_command rnd rooms code p (Roll kf))) code = Some st'
          \<and> turn_index st' = turn_index st)
   \<and> (\<exists>st'. map_of (snd (handle_command rnd rooms code p (OtherCommand other))) code = Some st'
          \<and> turn_index st' = turn_index st)
   \<and> (\<exists>st'. map_of (snd (handle_command rnd rooms code p (Score c))) code = Some st'
          \<and> turn_index st' =
              (if players st \<noteq> []
                  \<and> (\<exists>g b. map_of (scores st) p = Some g
                         \<and> fst (game_score_category rnd g c) = Inr b)
               then (turn_index st + 1) mod int (length (players st))
               else turn_index st))
   \<and> ((fst (handle_command rnd rooms code p (Score c)) = Inr ()) =
        (players st \<noteq> []
         \<and> (\<exists>g b. map_of (scores st) p = Some g
                \<and> fst (game_score_category rnd g c) = Inr b)))
   \<and> (players st \<noteq> [] \<and> map_of (scores st) p = Some g
        \<and> fst (game_score_category rnd g c) = Inr False
      \<longrightarrow> fst (handle_command rnd rooms code p (Score c)) = Inr ()
          \<and> (\<exists>st'. map_of (snd (handle_command rnd rooms code p (Score c))) code = Some st'
                \<and> turn_index st' = (turn_index st + 1) mod int (length (players st))))"
proof -
  have run: "list_all (\<lambda>req. \<not> is_score_for code req \<and> \<not> makes_or_deletes code req) reqs
      \<longrightarrow> map_option turn_index (map_of (foldl handle rooms reqs) code) = Some (turn_index st)"
    using assms by (simp add: run_keeps_turn_index)
  have roll: "\<exists>st'. map_of (snd (handle_command rnd rooms code p (Roll kf))) code = Some st'
          \<and> turn_index st' = turn_index st"
    using assms by (simp add: handle_command_room map_of_dict_set command_on_room_roll)
  have other: "\<exists>st'. map_of (snd (handle_command rnd rooms code p (OtherCommand other))) code
            = Some st' \<and> turn_index st' = turn_index st"
    using assms
    by (simp add: handle_command_room map_of_dict_set command_on_room_other
          split: option.splits)
  have score: "\<exists>st'. map_of (snd (handle_command rnd rooms code p (Score c))) code = Some st'
          \<and> turn_index st' =
              (if players st \<noteq> []
                  \<and> (\<exists>g b. map_of (scores st) p = Some g
                         \<and> fst (game_score_category rnd g c) = Inr b)
               then (turn_index st + 1) mod int (length (players st))
               else turn_index st)"
    using assms
    by (simp add: handle_command_room map_of_dict_set command_on_room_score_turn)
  have returns: "(fst (handle_command rnd rooms code p (Score c)) = Inr ()) =
        (players st \<noteq> []
         \<and> (\<exists>g b. map_of (scores st) p = Some g
                \<and> fst (game_score_category rnd g c) = Inr b))"
    unfolding handle_command_room [OF assms] fst_conv
    by (rule command_on_room_score_returns_iff)
  have failed: "players st \<noteq> [] \<and> map_of (scores st) p = Some g
        \<and> fst (game_score_category rnd g c) = Inr False
      \<longrightarrow> fst (handle_command rnd rooms code p (Score c)) = Inr ()
          \<and> (\<exists>st'. map_of (snd (handle_command rnd rooms code p (Score c))) code = Some st'
                \<and> turn_index st' = (turn_index st + 1) mod int (length (players st)))"
  proof
    assume a: "players st \<noteq> [] \<and> map_of (scores st) p = Some g
        \<and> fst (game_score_category rnd g c) = Inr False"
    then have cond: "players st \<noteq> []
         \<and> (\<exists>g b. map_of (scores st) p = Some g
                \<and> fst (game_score_category rnd g c) = Inr b)"
      by blast
    from returns cond have r: "fst (handle_command rnd rooms code p (Score c)) = Inr ()"
      by blast
    from score have "\<exists>st'. map_of (snd (handle_command rnd rooms code p (Score c))) code
          = Some st'
        \<and> turn_index st' = (turn_index st + 1) mod int (length (players st))"
      unfolding if_P [OF cond] .
    with r show "fst (handle_command rnd rooms code p (Score c)) = Inr ()
          \<and> (\<exists>st'. map_of (snd (handle_command rnd rooms code p (Score c))) code = Some st'
                \<and> turn_index st' = (turn_index st + 1) mod int (length (players st)))"
      by (rule conjI)
  qed
  from run roll other score returns failed show ?thesis by (intro conjI)
qed

text \<open>
  In a room of \<open>A\<close> and \<open>B\<close> at \<open>turn_index = 0\<close>: a run of two rolls, an unknown command,
  a join that is refused and a score command for another room leaves 0; a score command
  for the category \<open>sevens\<close> returns normally and gives 1.
\<close>

theorem turn_index_changes_witness:
  "map_of (serve [Create ''1234'' ''A'', Join ''1234'' ''B'']) ''1234''
     = Some \<lparr>room_code = ''1234'', players = [''A'', ''B''],
             scores = [(''A'', YahtzeeGame_init ''A''), (''B'', YahtzeeGame_init ''B'')],
             turn_index = 0, ready = True, final_scores = [], winner = None, keep = None\<rparr>
   \<and> fst (game_score_category (\<lambda>k. 6) (YahtzeeGame_init ''A'') ''sevens'') = Inr False
   \<and> list_all (\<lambda>req. \<not> is_score_for ''1234'' req \<and> \<not> makes_or_deletes ''1234'' req)
        [Command (\<lambda>k. 6) ''1234'' ''B'' (Roll KeepAbsent),
         Command (\<lambda>k. 6) ''1234'' ''A'' (OtherCommand ''pass''),
         Join ''1234'' ''C'',
         Command (\<lambda>k. 2) ''1234'' ''A'' (Roll KeepNone),
         Command (\<lambda>k. 2) ''9999'' ''A'' (Score ''ones'')]
   \<and> map_option turn_index
        (map_of (foldl handle (serve [Create ''1234'' ''A'', Join ''1234'' ''B''])
            [Command (\<lambda>k. 6) ''1234'' ''B'' (Roll KeepAbsent),
             Command (\<lambda>k. 6) ''1234'' ''A'' (OtherCommand ''pass''),
             Join ''1234'' ''C'',
             Command (\<lambda>k. 2) ''1234'' ''A'' (Roll KeepNone),
             Command (\<lambda>k. 2) ''9999'' ''A'' (Score ''ones'')]) ''1234'') = Some 0
   \<and> (\<exists>st'. map_of (snd (handle_command (\<lambda>k. 6)
                 (serve [Create ''1234'' ''A'', Join ''1234'' ''B''])
                 ''1234'' ''A'' (Roll KeepAbsent))) ''1234'' = Some st'
          \<and> turn_index st' = 0)
   \<and> (\<exists>st'. map_of (snd (handle_command (\<lambda>k. 6)
                 (serve [Create ''1234'' ''A'', Join ''1234'' ''B''])
                 ''1234'' ''A'' (OtherCommand ''pass''))) ''1234'' = Some st'
          \<and> turn_index st' = 0)
   \<and> fst (handle_command (\<lambda>k. 6) (serve [Create ''1234'' ''A'', Join ''1234'' ''B''])
            ''1234'' ''A'' (Score ''sevens'')) = Inr ()
   \<and> (\<exists>st'. map_of (snd (handle_command (\<lambda>k. 6)
                 (serve [Create ''1234'' ''A'', Join ''1234'' ''B''])
                 ''1234'' ''A'' (Score ''sevens''))) ''1234'' = Some st'
          \<and> turn_index st' = 1)"
proof -
  define room where "room = \<lparr>room_code = ''1234'', players = [''A'', ''B''],
             scores = [(''A'', YahtzeeGame_init ''A''), (''B'', YahtzeeGame_init ''B'')],
             turn_index = 0, ready = True, final_scores = [], winner = None, keep = None\<rparr>"
  define rooms where "rooms = serve [Create ''1234'' ''A'', Join ''1234'' ''B'']"
  define run where "run = [Command (\<lambda>k. 6) ''1234'' ''B'' (Roll KeepAbsent),
         Command (\<lambda>k. 6) ''1234'' ''A'' (OtherCommand ''pass''),
         Join ''1234'' ''C'',
         Command (\<lambda>k. 2) ''1234'' ''A'' (Roll KeepNone),
         Command (\<lambda>k. 2) ''9999'' ''A'' (Score ''ones'')]"
  have h: "map_of rooms ''1234'' = Some room" unfolding room_def rooms_def by code_simp
  have f: "fst (game_score_category (\<lambda>k. 6) (YahtzeeGame_init ''A'') ''sevens'') = Inr False"
    by code_simp
  have r: "list_all (\<lambda>req. \<not> is_score_for ''1234'' req \<and> \<not> makes_or_deletes ''1234'' req) run"
    unfolding run_def by simp
  have pl: "players room \<noteq> []" and ga: "map_of (scores room) ''A'' = Some (YahtzeeGame_init ''A'')"
    and ti: "turn_index room = 0"
    by (simp_all add: room_def)
  have v: "(turn_index room + 1) mod int (length (players room)) = 1"
    by (simp add: room_def)
  note t = turn_index_changes [OF h, where rnd = "\<lambda>k. 6" and p = "''A''" and kf = KeepAbsent
      and other = "''pass''" and c = "''sevens''" and g = "YahtzeeGame_init ''A''"
      and reqs = run]
  from t r have c0: "map_option turn_index (map_of (foldl handle rooms run) ''1234'') = Some 0"
    unfolding ti by blast
  from t have c1: "\<exists>st'. map_of (snd (handle_command (\<lambda>k. 6) rooms ''1234'' ''A''
        (Roll KeepAbsent))) ''1234'' = Some st' \<and> turn_index st' = 0"
    unfolding ti by blast
  from t have c2: "\<exists>st'. map_of (snd (handle_command (\<lambda>k. 6) rooms ''1234'' ''A''
        (OtherCommand ''pass''))) ''1234'' = Some st' \<and> turn_index st' = 0"
    unfolding ti by blast
  from t pl ga f have c3: "fst (handle_command (\<lambda>k. 6) rooms ''1234'' ''A''
        (Score ''sevens'')) = Inr ()
      \<and> (\<exists>st'. map_of (snd (handle_command (\<lambda>k. 6) rooms ''1234'' ''A''
            (Score ''sevens''))) ''1234'' = Some st'
          \<and> turn_index st' = (turn_index room + 1) mod int (length (players room)))"
    by blast
  from c3 have c4: "fst (handle_command (\<lambda>k. 6) rooms ''1234'' ''A''
        (Score ''sevens'')) = Inr ()"
    and c5: "\<exists>st'. map_of (snd (handle_command (\<lambda>k. 6) rooms ''1234'' ''A''
            (Score ''sevens''))) ''1234'' = Some st' \<and> turn_index st' = 1"
    unfolding v by blast+
  from h f r c0 c1 c2 c4 c5 show ?thesis
    unfolding room_def rooms_def run_def by (intro conjI)
qed

text \<open>
  A commit that fails advances the turn. In a room of two players at \<open>turn_index = 0\<close>,
  a score command for the category \<open>sevens\<close>, which no scorecard has, moves \<open>turn_index\<close>
  to 1; and after each player has scored \<open>ones\<close> (\<open>turn_index\<close> back at 0), a second commit
  of \<open>ones\<close> by the first player returns \<open>False\<close> and moves \<open>turn_index\<close> to 1.
\<close>

theorem failed_commit_advances_turn:
  "map_option turn_index (map_of (serve [Create ''1234'' ''A'', Join ''1234'' ''B'']) ''1234'')
     = Some 0
   \<and> map_option (\<lambda>st. map_option (\<lambda>g. fst (game_score_category (\<lambda>k. 6) g ''sevens''))
         (map_of (scores st) ''A''))
       (map_of (serve [Create ''1234'' ''A'', Join ''1234'' ''B'']) ''1234'')
     = Some (Some (Inr False))
   \<and> map_option turn_index
       (map_of (serve [Create ''1234'' ''A'', Join ''1234'' ''B'',
                       Command (\<lambda>k. 6) ''1234'' ''A'' (Score ''sevens'')]) ''1234'')
     = Some 1
   \<and> map_option turn_index
       (map_of (serve [Create ''1234'' ''A'', Join ''1234'' ''B'',
                       Command (\<lambda>k. 6) ''1234'' ''A'' (Score ''ones''),
                       Command (\<lambda>k. 6) ''1234'' ''B'' (Score ''ones'')]) ''1234'')
     = Some 0
   \<and> map_option (\<lambda>st. map_option (\<lambda>g. fst (game_score_category (\<lambda>k. 6) g ''ones''))
         (map_of (scores st) ''A''))
       (map_of (serve [Create ''1234'' ''A'', Join ''1234'' ''B'',
                       Command (\<lambda>k. 6) ''1234'' ''A'' (Score ''ones''),
                       Command (\<lambda>k. 6) ''1234'' ''B'' (Score ''ones'')]) ''1234'')
     = Some (Some (Inr False))
   \<and> map_option turn_index
       (map_of (serve [Create ''1234'' ''A'', Join ''1234'' ''B'',
                       Command (\<lambda>k. 6) ''1234'' ''A'' (Score ''ones''),
                       Command (\<lambda>k. 6) ''1234'' ''B'' (Score ''ones''),
                       Command (\<lambda>k. 6) ''1234'' ''A'' (Score ''ones'')]) ''1234'')
     = Some 1"
  by code_simp

lemma dict_set_twice: "dict_set (dict_set d k v) k w = dict_set d k w"
  by (induction d) auto

lemma command_on_room_roll_game:
  assumes "map_of (scores st) p = Some g"
  shows "snd (command_on_room rnd st p (Roll kf)) =
     st\<lparr>scores := dict_set (scores st) p (snd (roll_dice rnd (keep_argument kf) g))\<rparr>"
  using assms by (simp add: command_on_room_def split: prod.splits sum.splits)

lemma game_score_category_returns:
  assumes "game_ok g"
  shows "\<exists>b. fst (game_score_category rnd g c) = Inr b"
  unfolding game_score_category_cases [OF assms] by (auto simp: Let_def)

lemma command_on_room_score_game:
  assumes pl: "players st \<noteq> []" and g: "map_of (scores st) p = Some g" and ok: "game_ok g"
  shows "fst (command_on_room rnd st p (Score c)) = Inr ()
   \<and> scores (snd (command_on_room rnd st p (Score c)))
       = dict_set (scores st) p (snd (game_score_category rnd g c))
   \<and> players (snd (command_on_room rnd st p (Score c))) = players st
   \<and> turn_index (snd (command_on_room rnd st p (Score c)))
       = (turn_index st + 1) mod int (length (players st))"
proof -
  from game_score_category_returns [OF ok] obtain b where
    b: "fst (game_score_category rnd g c) = Inr b" by blast
  define st1 where
    "st1 = st\<lparr>scores := dict_set (scores st) p (snd (game_score_category rnd g c))\<rparr>"
  have eq: "command_on_room rnd st p (Score c) = after_score st1"
    by (simp add: command_on_room_score g b st1_def)
  have pl1: "players st1 \<noteq> []" and sc1: "scores st1 \<noteq> []"
    using pl by (simp_all add: st1_def dict_set_nonempty)
  from after_score_players [OF pl1] sc1 show ?thesis
    unfolding eq by (simp add: st1_def)
qed

text \<open>
  C1 (as the handler has it). The handler of a command never reads \<open>turn_index\<close> or
  \<open>current_player\<close>: a command is applied to the game of the player it names, whoever
  holds the turn. For every room and every player \<open>p\<close> with a game in it, a roll command
  for \<open>p\<close> puts the result of \<open>roll_dice\<close> on that game into the room; a score command for
  \<open>p\<close> (in a room with a player, on a game as the constructor and the methods leave it)
  returns normally, puts the result of \<open>game_score_category\<close> into the room and advances
  the turn. Of two score commands for the two different players of a room both are
  applied, and \<open>turn_index\<close> advances twice.
\<close>

theorem commands_ignore_turn_holder:
  assumes "map_of rooms code = Some st" and "map_of (scores st) p = Some g"
  shows "snd (handle_command rnd rooms code p (Roll kf))
       = dict_set rooms code
           (st\<lparr>scores := dict_set (scores st) p (snd (roll_dice rnd (keep_argument kf) g))\<rparr>)
   \<and> (players st \<noteq> [] \<and> game_ok g \<longrightarrow>
        fst (handle_command rnd rooms code p (Score c)) = Inr ()
        \<and> (\<exists>st'. snd (handle_command rnd rooms code p (Score c)) = dict_set rooms code st'
              \<and> scores st' = dict_set (scores st) p (snd (game_score_category rnd g c))
              \<and> turn_index st' = (turn_index st + 1) mod int (length (players st))))
   \<and> (length (players st) = 2 \<and> p0 \<noteq> p1
        \<and> map_of (scores st) p0 = Some g0 \<and> map_of (scores st) p1 = Some g1
        \<and> game_ok g0 \<and> game_ok g1 \<longrightarrow>
        (\<exists>st''. foldl handle rooms
                  [Command rnd0 code p0 (Score c0), Command rnd1 code p1 (Score c1)]
                = dict_set rooms code st''
           \<and> scores st'' =
               dict_set (dict_set (scores st) p0 (snd (game_score_category rnd0 g0 c0)))
                 p1 (snd (game_score_category rnd1 g1 c1))
           \<and> turn_index st'' = (turn_index st + 2) mod 2))"
proof (intro conjI impI)
  show "snd (handle_command rnd rooms code p (Roll kf))
       = dict_set rooms code
           (st\<lparr>scores := dict_set (scores st) p (snd (roll_dice rnd (keep_argument kf) g))\<rparr>)"
    using assms by (simp add: handle_command_room command_on_room_roll_game)
next
  assume "players st \<noteq> [] \<and> game_ok g"
  then have pl: "players st \<noteq> []" and ok: "game_ok g" by simp_all
  note s = command_on_room_score_game [OF pl assms(2) ok, of rnd c]
  from s show "fst (handle_command rnd rooms code p (Score c)) = Inr ()"
    by (simp add: handle_command_room [OF assms(1)])
  from s show "\<exists>st'. snd (handle_command rnd rooms code p (Score c)) = dict_set rooms code st'
              \<and> scores st' = dict_set (scores st) p (snd (game_score_category rnd g c))
              \<and> turn_index st' = (turn_index st + 1) mod int (length (players st))"
    unfolding handle_command_room [OF assms(1)] snd_conv by blast
next
  assume a: "length (players st) = 2 \<and> p0 \<noteq> p1
        \<and> map_of (scores st) p0 = Some g0 \<and> map_of (scores st) p1 = Some g1
        \<and> game_ok g0 \<and> game_ok g1"
  then have pl: "players st \<noteq> []" and len: "int (length (players st)) = 2"
    and ne: "p0 \<noteq> p1"
    and g0: "map_of (scores st) p0 = Some g0" and g1: "map_of (scores st) p1 = Some g1"
    and ok0: "game_ok g0" and ok1: "game_ok g1"
    by auto
  define st1 where "st1 = snd (command_on_room rnd0 st p0 (Score c0))"
  define st2 where "st2 = snd (command_on_room rnd1 st1 p1 (Score c1))"
  note s1 = command_on_room_score_game [OF pl g0 ok0, of rnd0 c0, folded st1_def]
  from s1 have pl1: "players st1 \<noteq> []" and len1: "int (length (players st1)) = 2"
    using pl len by simp_all
  from s1 ne g1 have g1': "map_of (scores st1) p1 = Some g1"
    by (simp add: map_of_dict_set)
  note s2 = command_on_room_score_game [OF pl1 g1' ok1, of rnd1 c1, folded st2_def]
  have r1: "handle rooms (Command rnd0 code p0 (Score c0)) = dict_set rooms code st1"
    by (simp add: handle_command_room [OF assms(1)] st1_def)
  have m1: "map_of (dict_set rooms code st1) code = Some st1"
    by (simp add: map_of_dict_set)
  have r2: "handle (dict_set rooms code st1) (Command rnd1 code p1 (Score c1))
      = dict_set rooms code st2"
    by (simp add: handle_command_room [OF m1] st2_def dict_set_twice)
  have run: "foldl handle rooms
       [Command rnd0 code p0 (Score c0), Command rnd1 code p1 (Score c1)]
     = dict_set rooms code st2"
    by (simp only: foldl.simps r1 r2)
  have sc: "scores st2 =
      dict_set (dict_set (scores st) p0 (snd (game_score_category rnd0 g0 c0)))
        p1 (snd (game_score_category rnd1 g1 c1))"
    using s1 s2 by simp
  have "turn_index st2 = ((turn_index st + 1) mod 2 + 1) mod 2"
    using s1 s2 len len1 by simp
  also have "\<dots> = (turn_index st + 2) mod 2" by presburger
  finally have ti: "turn_index st2 = (turn_index st + 2) mod 2" .
  from run sc ti show "\<exists>st''. foldl handle rooms
                  [Command rnd0 code p0 (Score c0), Command rnd1 code p1 (Score c1)]
                = dict_set rooms code st''
           \<and> scores st'' =
               dict_set (dict_set (scores st) p0 (snd (game_score_category rnd0 g0 c0)))
                 p1 (snd (game_score_category rnd1 g1 c1))
           \<and> turn_index st'' = (turn_index st + 2) mod 2"
    by blast
qed

theorem commands_ignore_turn_holder_witness:
  "map_of (serve [Create ''1234'' ''A'', Join ''1234'' ''B'']) ''1234''
     = Some \<lparr>room_code = ''1234'', players = [''A'', ''B''],
             scores = [(''A'', YahtzeeGame_init ''A''), (''B'', YahtzeeGame_init ''B'')],
             turn_index = 0, ready = True, final_scores = [], winner = None, keep = None\<rparr>
   \<and> current_player
        \<lparr>room_code = ''1234'', players = [''A'', ''B''],
         scores = [(''A'', YahtzeeGame_init ''A''), (''B'', YahtzeeGame_init ''B'')],
         turn_index = 0, ready = True, final_scores = [], winner = None, keep = None\<rparr>
      = Inr ''A''
   \<and> game_ok (YahtzeeGame_init ''A'') \<and> game_ok (YahtzeeGame_init ''B'')
   \<and> map_option (\<lambda>st. map_of (scores st) ''B'')
        (map_of (snd (handle_command (\<lambda>k. 6)
            (serve [Create ''1234'' ''A'', Join ''1234'' ''B''])
            ''1234'' ''B'' (Roll KeepAbsent))) ''1234'')
      = Some (Some (snd (roll_dice (\<lambda>k. 6) (Some (replicate 5 False))
                          (YahtzeeGame_init ''B''))))
   \<and> fst (handle_command (\<lambda>k. 6) (serve [Create ''1234'' ''A'', Join ''1234'' ''B''])
            ''1234'' ''B'' (Score ''ones'')) = Inr ()
   \<and> map_option (\<lambda>st. (map_of (scores st) ''B'', turn_index st))
        (map_of (snd (handle_command (\<lambda>k. 6)
            (serve [Create ''1234'' ''A'', Join ''1234'' ''B''])
            ''1234'' ''B'' (Score ''ones''))) ''1234'')
      = Some (Some (snd (game_score_category (\<lambda>k. 6) (YahtzeeGame_init ''B'') ''ones'')), 1)
   \<and> map_option (\<lambda>st. (map_of (scores st) ''B'', map_of (scores st) ''A'', turn_index st))
        (map_of (serve [Create ''1234'' ''A'', Join ''1234'' ''B'',
                        Command (\<lambda>k. 6) ''1234'' ''B'' (Score ''ones''),
                        Command (\<lambda>k. 3) ''1234'' ''A'' (Score ''chance'')]) ''1234'')
      = Some (Some (snd (game_score_category (\<lambda>k. 6) (YahtzeeGame_init ''B'') ''ones'')),
              Some (snd (game_score_category (\<lambda>k. 3) (YahtzeeGame_init ''A'') ''chance'')),
              0)"
proof -
  define room where "room = \<lparr>room_code = ''1234'', players = [''A'', ''B''],
             scores = [(''A'', YahtzeeGame_init ''A''), (''B'', YahtzeeGame_init ''B'')],
             turn_index = 0, ready = True, final_scores = [], winner = None, keep = None\<rparr>"
  define rooms where "rooms = serve [Create ''1234'' ''A'', Join ''1234'' ''B'']"
  have h: "map_of rooms ''1234'' = Some room" unfolding room_def rooms_def by code_simp
  have cp: "current_player room = Inr ''A''" unfolding room_def by code_simp
  have okA: "game_ok (YahtzeeGame_init ''A'')" by code_simp
  have okB: "game_ok (YahtzeeGame_init ''B'')" by code_simp
  have gB: "map_of (scores room) ''B'' = Some (YahtzeeGame_init ''B'')"
    and gA: "map_of (scores room) ''A'' = Some (YahtzeeGame_init ''A'')"
    and l2: "length (players room) = 2"
    and ne: "players room \<noteq> []" and ti: "turn_index room = 0"
    and len: "int (length (players room)) = 2"
    by (simp_all add: room_def)
  have run: "serve [Create ''1234'' ''A'', Join ''1234'' ''B'',
                    Command (\<lambda>k. 6) ''1234'' ''B'' (Score ''ones''),
                    Command (\<lambda>k. 3) ''1234'' ''A'' (Score ''chance'')]
     = foldl handle rooms [Command (\<lambda>k. 6) ''1234'' ''B'' (Score ''ones''),
                           Command (\<lambda>k. 3) ''1234'' ''A'' (Score ''chance'')]"
    by (simp add: serve_def rooms_def)
  note t = commands_ignore_turn_holder [OF h gB, where rnd = "\<lambda>k. 6" and kf = KeepAbsent
      and c = "''ones''" and ?p0.0 = "''B''" and ?p1.0 = "''A''"
      and ?g0.0 = "YahtzeeGame_init ''B''" and ?g1.0 = "YahtzeeGame_init ''A''"
      and ?rnd0.0 = "\<lambda>k. 6" and ?c0.0 = "''ones''"
      and ?rnd1.0 = "\<lambda>k. 3" and ?c1.0 = "''chance''"]
  from t have c1: "map_option (\<lambda>st. map_of (scores st) ''B'')
        (map_of (snd (handle_command (\<lambda>k. 6) rooms ''1234'' ''B'' (Roll KeepAbsent))) ''1234'')
      = Some (Some (snd (roll_dice (\<lambda>k. 6) (Some (replicate 5 False))
                          (YahtzeeGame_init ''B''))))"
    by (simp add: map_of_dict_set)
  from t ne okB have c2: "fst (handle_command (\<lambda>k. 6) rooms ''1234'' ''B'' (Score ''ones''))
      = Inr ()"
    by blast
  from t ne okB obtain st' where
    s: "snd (handle_command (\<lambda>k. 6) rooms ''1234'' ''B'' (Score ''ones''))
          = dict_set rooms ''1234'' st'"
       "scores st' = dict_set (scores room) ''B''
          (snd (game_score_category (\<lambda>k. 6) (YahtzeeGame_init ''B'') ''ones''))"
       "turn_index st' = (turn_index room + 1) mod int (length (players room))"
    by blast
  have c3: "map_option (\<lambda>st. (map_of (scores st) ''B'', turn_index st))
        (map_of (snd (handle_command (\<lambda>k. 6) rooms ''1234'' ''B'' (Score ''ones''))) ''1234'')
      = Some (Some (snd (game_score_category (\<lambda>k. 6) (YahtzeeGame_init ''B'') ''ones'')), 1)"
    by (simp add: s map_of_dict_set ti len)
  have ne2: "''B'' \<noteq> ''A''" by simp
  from t l2 ne2 gA gB okA okB obtain st'' where
    s2: "foldl handle rooms [Command (\<lambda>k. 6) ''1234'' ''B'' (Score ''ones''),
                             Command (\<lambda>k. 3) ''1234'' ''A'' (Score ''chance'')]
          = dict_set rooms ''1234'' st''"
       "scores st'' =
          dict_set (dict_set (scores room) ''B''
              (snd (game_score_category (\<lambda>k. 6) (YahtzeeGame_init ''B'') ''ones'')))
            ''A'' (snd (game_score_category (\<lambda>k. 3) (YahtzeeGame_init ''A'') ''chance''))"
       "turn_index st'' = (turn_index room + 2) mod 2"
    by blast
  have c4: "map_option (\<lambda>st. (map_of (scores st) ''B'', map_of (scores st) ''A'', turn_index st))
        (map_of (foldl handle rooms [Command (\<lambda>k. 6) ''1234'' ''B'' (Score ''ones''),
                             Command (\<lambda>k. 3) ''1234'' ''A'' (Score ''chance'')]) ''1234'')
      = Some (Some (snd (game_score_category (\<lambda>k. 6) (YahtzeeGame_init ''B'') ''ones'')),
              Some (snd (game_score_category (\<lambda>k. 3) (YahtzeeGame_init ''A'') ''chance'')),
              0)"
    unfolding s2(1) by (simp add: s2(2,3) map_of_dict_set ti)
  from h cp okA okB c1 c2 c3 c4 show ?thesis
    unfolding run unfolding room_def rooms_def keep_argument.simps by (intro conjI)
qed

text \<open>
  Commands of the player who does not hold the turn are applied. In a room of \<open>A\<close> and
  \<open>B\<close> at \<open>turn_index = 0\<close> the turn holder is \<open>A\<close>. A roll command for \<open>B\<close> rolls the dice
  of \<open>B\<close>. A score command for \<open>B\<close> commits \<open>ones\<close> on the scorecard of \<open>B\<close> and moves
  \<open>turn_index\<close> to 1; the score command for \<open>A\<close> that follows commits as well and moves
  \<open>turn_index\<close> back to 0: both are accepted and the turn advances twice.
\<close>

theorem non_holder_commands_accepted:
  "map_option current_player
      (map_of (serve [Create ''1234'' ''A'', Join ''1234'' ''B'']) ''1234'')
     = Some (Inr ''A'')
   \<and> map_option
        (\<lambda>st. map (\<lambda>(p, g). (p, dice (game_dice g), rolls_remaining (game_dice g))) (scores st))
        (map_of (serve [Create ''1234'' ''A'', Join ''1234'' ''B'']) ''1234'')
     = Some [(''A'', [1, 1, 1, 1, 1], 3), (''B'', [1, 1, 1, 1, 1], 3)]
   \<and> map_option
        (\<lambda>st. map (\<lambda>(p, g). (p, dice (game_dice g), rolls_remaining (game_dice g))) (scores st))
        (map_of (serve [Create ''1234'' ''A'', Join ''1234'' ''B'',
                        Command (\<lambda>k. 6) ''1234'' ''B'' (Roll KeepAbsent)]) ''1234'')
     = Some [(''A'', [1, 1, 1, 1, 1], 3), (''B'', [6, 6, 6, 6, 6], 2)]
   \<and> map_option
        (\<lambda>st. (turn_index st,
               map (\<lambda>(p, g). (p, stored_score (scorecard g) ''ones'', current_turn g))
                 (scores st)))
        (map_of (serve [Create ''1234'' ''A'', Join ''1234'' ''B'']) ''1234'')
     = Some (0, [(''A'', Some None, 1), (''B'', Some None, 1)])
   \<and> map_option
        (\<lambda>st. (turn_index st,
               map (\<lambda>(p, g). (p, stored_score (scorecard g) ''ones'', current_turn g))
                 (scores st)))
        (map_of (serve [Create ''1234'' ''A'', Join ''1234'' ''B'',
                        Command (\<lambda>k. 6) ''1234'' ''B'' (Score ''ones'')]) ''1234'')
     = Some (1, [(''A'', Some None, 1), (''B'', Some (Some 5), 2)])
   \<and> map_option
        (\<lambda>st. (turn_index st,
               map (\<lambda>(p, g). (p, stored_score (scorecard g) ''ones'', current_turn g))
                 (scores st)))
        (map_of (serve [Create ''1234'' ''A'', Join ''1234'' ''B'',
                        Command (\<lambda>k. 6) ''1234'' ''B'' (Score ''ones''),
                        Command (\<lambda>k. 6) ''1234'' ''A'' (Score ''ones'')]) ''1234'')
     = Some (0, [(''A'', Some (Some 5), 2), (''B'', Some (Some 5), 2)])"
  by code_simp


section \<open>The winner of a room\<close>

text \<open>
  The key that \<^verbatim>\<open>max(scores, key=scores.get)\<close> picks: its value is greater than every
  value before it and at least every value after it.
\<close>

lemma max_by_value_first_max:
  "\<exists>m xs ys. p # rest = xs @ (max_by_value p rest, m) # ys
      \<and> (\<forall>x\<in>set xs. snd x < m) \<and> (\<forall>y\<in>set ys. snd y \<le> m)"
proof (induction rest arbitrary: p)
  case Nil
  obtain k v where p: "p = (k, v)" by (cases p)
  have "p # [] = [] @ (max_by_value p [], v) # []" by (simp add: p)
  then show ?case by fastforce
next
  case (Cons q rest)
  obtain k v where p: "p = (k, v)" by (cases p)
  obtain k' v' where q: "q = (k', v')" by (cases q)
  show ?case
  proof (cases "v' > v")
    case True
    from Cons.IH [of q] obtain m xs ys where
      s: "q # rest = xs @ (max_by_value q rest, m) # ys"
      and lt: "\<forall>x\<in>set xs. snd x < m" and le: "\<forall>y\<in>set ys. snd y \<le> m" by blast
    have "v' \<le> m"
    proof (cases xs)
      case Nil
      with s q show ?thesis by simp
    next
      case (Cons x xs')
      with s have "x = q" by simp
      with lt Cons q show ?thesis by simp
    qed
    with True have "v < m" by simp
    with lt p have lt': "\<forall>x\<in>set (p # xs). snd x < m" by simp
    have w: "max_by_value p (q # rest) = max_by_value q rest" using True by (simp add: p q)
    have "p # q # rest = (p # xs) @ (max_by_value p (q # rest), m) # ys"
      unfolding w using s by simp
    with lt' le show ?thesis by blast
  next
    case False
    from Cons.IH [of p] obtain m xs ys where
      s: "p # rest = xs @ (max_by_value p rest, m) # ys"
      and lt: "\<forall>x\<in>set xs. snd x < m" and le: "\<forall>y\<in>set ys. snd y \<le> m" by blast
    have w: "max_by_value p (q # rest) = max_by_value p rest" using False by (simp add: p q)
    show ?thesis
    proof (cases xs)
      case Nil
      with s have "p # rest = (max_by_value p rest, m) # ys" by (simp only: append_Nil)
      then have pm: "p = (max_by_value p rest, m)" and r: "rest = ys"
        unfolding list.inject by blast+
      from pm p have "v = m" by simp
      with False le r q have le': "\<forall>y\<in>set (q # ys). snd y \<le> m" by simp
      have "p # q # rest = [] @ (max_by_value p (q # rest), m) # (q # ys)"
        unfolding w using pm r by simp
      with le' show ?thesis by (metis empty_iff list.set(1))
    next
      case (Cons x xs')
      with s have "p # rest = x # (xs' @ (max_by_value p rest, m) # ys)"
        by (simp only: append_Cons)
      then have x: "x = p" and r: "rest = xs' @ (max_by_value p rest, m) # ys"
        unfolding list.inject by blast+
      from lt Cons x p have "v < m" by simp
      with False q have "snd q < m" by simp
      with lt Cons x have lt': "\<forall>x\<in>set (p # q # xs'). snd x < m" by simp
      have "p # q # rest = (p # q # xs') @ (max_by_value p (q # rest), m) # ys"
        unfolding w using r by simp
      with lt' le show ?thesis by blast
    qed
  qed
qed

text \<open>Games in a dictionary after an assignment.\<close>

lemma list_all_dict_set_new:
  "list_all P (map snd (dict_set d k v)) \<Longrightarrow> P v"
  by (induction d) (auto split: if_splits)

lemma list_all_dict_set_old:
  "map_of d k = Some v \<Longrightarrow> P v \<Longrightarrow> list_all P (map snd (dict_set d k v'))
     \<Longrightarrow> list_all P (map snd d)"
  by (induction d) (auto split: if_splits)

lemma all_done_new_game:
  "\<not> game_complete g \<Longrightarrow> \<not> all_done (st\<lparr>scores := dict_set (scores st) p g\<rparr>)"
  using list_all_dict_set_new [of game_complete "scores st" p g]
  by (auto simp: all_done_def)

lemma game_score_category_raises:
  "fst (game_score_category rnd g c) = Inl e \<Longrightarrow> \<not> game_complete (snd (game_score_category rnd g c))"
  by (auto simp: game_score_category_def game_start_new_turn_def Let_def
        split: if_splits prod.splits sum.splits)

text \<open>Every step of the handler keeps \<open>winner_recorded\<close>.\<close>

lemma set_winner_if_done_recorded:
  assumes "players st \<noteq> []" and "scores st \<noteq> []"
  shows "winner_recorded (snd (set_winner_if_done st))"
proof -
  from assms(2) obtain t ts where t: "score_totals st = t # ts"
    by (cases "scores st") (auto simp: score_totals_def)
  show ?thesis
    using assms
    by (simp add: set_winner_if_done_def winner_recorded_def all_done_def score_totals_def
          dict_max_key_def Let_def t [unfolded score_totals_def])
qed

lemma after_score_recorded:
  assumes "players st \<noteq> []" and "scores st \<noteq> []"
  shows "winner_recorded (snd (after_score st))"
  using assms set_winner_if_done_recorded
    [of "st\<lparr>keep := Some (replicate 5 False),
            turn_index := (turn_index st + 1) mod int (length (players st))\<rparr>"]
  by (simp add: after_score_def next_turn_def)

lemma roll_recorded:
  assumes inv: "winner_recorded st" and g: "map_of (scores st) p = Some g"
  shows "winner_recorded (st\<lparr>scores := dict_set (scores st) p (snd (roll_dice rnd ks g))\<rparr>)"
proof (cases "game_complete g")
  case True
  then have "snd (roll_dice rnd ks g) = g" by (simp add: roll_dice_complete)
  with g inv show ?thesis by (simp add: dict_set_same)
next
  case False
  then have "\<not> game_complete (snd (roll_dice rnd ks g))" by (simp add: roll_dice_keeps)
  from all_done_new_game [OF this] inv show ?thesis
    by (simp add: winner_recorded_def dict_set_nonempty)
qed

lemma command_on_room_recorded:
  assumes inv: "winner_recorded st"
  shows "winner_recorded (snd (command_on_room rnd st p cmd))"
proof (cases "map_of (scores st) p")
  case None
  with inv show ?thesis by (simp add: command_on_room_def)
next
  case (Some g)
  from inv have pl: "players st \<noteq> []" by (simp add: winner_recorded_def)
  show ?thesis
  proof (cases cmd)
    case (Roll kf)
    show ?thesis
      unfolding Roll command_on_room_roll_game [OF Some] by (rule roll_recorded [OF inv Some])
  next
    case (Score c)
    define st1 where
      "st1 = st\<lparr>scores := dict_set (scores st) p (snd (game_score_category rnd g c))\<rparr>"
    have pl1: "players st1 \<noteq> []" and sc1: "scores st1 \<noteq> []"
      using pl by (simp_all add: st1_def dict_set_nonempty)
    show ?thesis
    proof (cases "fst (game_score_category rnd g c)")
      case (Inl e)
      from all_done_new_game [OF game_score_category_raises [OF Inl], of st p]
      have "\<not> all_done st1" by (simp add: st1_def)
      with pl1 sc1 have "winner_recorded st1" by (simp add: winner_recorded_def)
      then show ?thesis by (simp add: Score command_on_room_score Some Inl st1_def)
    next
      case (Inr b)
      from after_score_recorded [OF pl1 sc1] show ?thesis
        by (simp add: Score command_on_room_score Some Inr st1_def)
    qed
  next
    case (OtherCommand other)
    with inv Some show ?thesis by (simp add: command_on_room_def)
  qed
qed

lemma init_game_not_complete: "\<not> game_complete (YahtzeeGame_init name)"
  by (simp add: YahtzeeGame_init_def)

lemma handle_recorded:
  assumes all: "\<And>c s. map_of rooms c = Some s \<Longrightarrow> winner_recorded s"
    and st: "map_of (handle rooms req) code = Some st"
  shows "winner_recorded st"
proof (cases req)
  case (Create code' name)
  show ?thesis
  proof (cases "code = code'")
    case True
    with st Create have "st = \<lparr>room_code = code', players = [name],
        scores = [(name, YahtzeeGame_init name)], turn_index = 0, ready = False,
        final_scores = [], winner = None, keep = None\<rparr>"
      by (simp add: handle_create_def GameState_init_def map_of_dict_set Let_def)
    then show ?thesis
      by (simp add: winner_recorded_def all_done_def init_game_not_complete)
  next
    case False
    with st Create have "map_of rooms code = Some st"
      by (simp add: handle_create_def map_of_dict_set Let_def)
    then show ?thesis by (rule all)
  qed
next
  case (Join code' name)
  show ?thesis
  proof (cases "map_of rooms code' = None \<or> is_full (the (map_of rooms code'))")
    case True
    with st Join have "map_of rooms code = Some st"
      by (auto simp: handle_join_def split: option.splits)
    then show ?thesis by (rule all)
  next
    case False
    then obtain room where room: "map_of rooms code' = Some room" and nf: "\<not> is_full room"
      by auto
    show ?thesis
    proof (cases "code = code'")
      case True
      from handle_join_room [OF room nf, of name] st Join True
      have p: "players st = players room @ [name]"
        and s: "scores st = dict_set (scores room) name (YahtzeeGame_init name)"
        by auto
      from all_done_new_game [OF init_game_not_complete, of room name name] s
      have "\<not> all_done st" by (simp add: all_done_def)
      with p s show ?thesis by (simp add: winner_recorded_def dict_set_nonempty)
    next
      case False
      with handle_join_room [OF room nf, of name] st Join
      have "map_of rooms code = Some st" by (auto simp: map_of_dict_set)
      then show ?thesis by (rule all)
    qed
  qed
next
  case (Command rnd code' player cmd)
  show ?thesis
  proof (cases "map_of rooms code'")
    case None
    with st Command have "map_of rooms code = Some st" by (simp add: handle_command_no_room)
    then show ?thesis by (rule all)
  next
    case (Some room)
    show ?thesis
    proof (cases "code = code'")
      case True
      with st Command Some have "st = snd (command_on_room rnd room player cmd)"
        by (simp add: handle_command_room map_of_dict_set)
      with command_on_room_recorded [OF all [OF Some]] show ?thesis by simp
    next
      case False
      with st Command Some have "map_of rooms code = Some st"
        by (simp add: handle_command_room map_of_dict_set)
      then show ?thesis by (rule all)
    qed
  qed
next
  case (Delete code')
  with st have "map_of rooms code = Some st"
    by (simp add: map_of_delete split: if_splits)
  then show ?thesis by (rule all)
qed

lemma foldl_handle_recorded:
  assumes "\<And>c s. map_of rooms c = Some s \<Longrightarrow> winner_recorded s"
    and "map_of (foldl handle rooms reqs) code = Some st"
  shows "winner_recorded st"
  using assms
proof (induction reqs arbitrary: rooms code st)
  case Nil
  then show ?case by simp
next
  case (Cons req reqs)
  show ?case
  proof (rule Cons.IH [of "handle rooms req"])
    fix c s assume "map_of (handle rooms req) c = Some s"
    then show "winner_recorded s" using Cons.prems(1) handle_recorded by blast
  next
    from Cons.prems(2) show "map_of (foldl handle (handle rooms req) reqs) code = Some st"
      by simp
  qed
qed

lemma serve_recorded:
  assumes "map_of (serve reqs) code = Some st"
  shows "winner_recorded st"
  using foldl_handle_recorded [of "[]" reqs code st] assms by (simp add: serve_def)

text \<open>When \<open>winner\<close> is set, and that it stays set.\<close>

lemma all_done_game:
  assumes "all_done st" and "map_of (scores st) p = Some g"
  shows "game_complete g"
proof -
  from map_of_SomeD [OF assms(2)] have "g \<in> set (map snd (scores st))" by force
  with assms(1) show ?thesis by (auto simp: all_done_def list_all_iff)
qed

lemma game_score_category_complete:
  "game_complete g \<Longrightarrow> game_score_category rnd g c = (Inr False, g)"
  by (simp add: game_score_category_def)

lemma set_winner_if_done_winner:
  "(winner (snd (set_winner_if_done st)) \<noteq> None)
     = (winner st \<noteq> None \<or> (all_done st \<and> scores st \<noteq> []))"
  by (cases "scores st")
     (auto simp: set_winner_if_done_def Let_def dict_max_key_def score_totals_def
        split: sum.splits)

lemma set_winner_if_done_all_done:
  "all_done (snd (set_winner_if_done st)) = all_done st"
  by (simp add: all_done_def set_winner_if_done_fields)

lemma after_score_scores: "scores (snd (after_score st)) = scores st"
  by (cases "players st = []")
     (simp_all add: after_score_no_players after_score_players)

lemma after_score_all_done: "all_done (snd (after_score st)) = all_done st"
  by (simp add: all_done_def after_score_scores)

lemma after_score_winner:
  "(winner (snd (after_score st)) \<noteq> None)
     = (winner st \<noteq> None \<or> (players st \<noteq> [] \<and> all_done st \<and> scores st \<noteq> []))"
proof (cases "players st = []")
  case True
  then show ?thesis by (simp add: after_score_no_players)
next
  case False
  define st2 where "st2 = st\<lparr>keep := Some (replicate 5 False),
       turn_index := (turn_index st + 1) mod int (length (players st))\<rparr>"
  have eq: "after_score st = set_winner_if_done st2"
    using False by (simp add: after_score_def next_turn_def st2_def)
  have f: "winner st2 = winner st" "all_done st2 = all_done st" "scores st2 = scores st"
    by (simp_all add: st2_def all_done_def)
  show ?thesis
    unfolding eq set_winner_if_done_winner f using False by simp
qed

lemma command_on_room_winner_kept:
  assumes w: "winner st \<noteq> None"
  shows "winner (snd (command_on_room rnd st p cmd)) \<noteq> None"
proof (cases "map_of (scores st) p")
  case None
  with w show ?thesis by (simp add: command_on_room_def)
next
  case (Some g)
  show ?thesis
  proof (cases cmd)
    case (Roll kf)
    with w show ?thesis by (simp add: command_on_room_roll_game [OF Some])
  next
    case (Score c)
    with w show ?thesis
      by (simp add: command_on_room_score Some after_score_winner
            del: not_None_eq split: sum.splits)
  next
    case (OtherCommand other)
    with w show ?thesis by (simp add: command_on_room_other Some)
  qed
qed

lemma command_on_room_winner_set:
  assumes "winner st = None" and "winner (snd (command_on_room rnd st p cmd)) \<noteq> None"
  shows "(\<exists>c. cmd = Score c) \<and> all_done (snd (command_on_room rnd st p cmd))"
proof (cases cmd)
  case (Roll kf)
  with assms show ?thesis
    by (auto simp: command_on_room_def split: option.splits prod.splits sum.splits)
next
  case (Score c)
  with assms show ?thesis
    by (auto simp: command_on_room_score after_score_winner after_score_all_done
          simp del: not_None_eq split: option.splits sum.splits)
next
  case (OtherCommand other)
  with assms show ?thesis by (auto simp: command_on_room_other split: option.splits)
qed

lemma command_on_room_only_if:
  assumes inv: "winner st \<noteq> None \<longrightarrow> all_done st"
  shows "winner (snd (command_on_room rnd st p cmd)) \<noteq> None
     \<longrightarrow> all_done (snd (command_on_room rnd st p cmd))"
proof (cases "winner st = None")
  case True
  with command_on_room_winner_set [of st rnd p cmd] show ?thesis by blast
next
  case False
  with inv have ad: "all_done st" by simp
  show ?thesis
  proof (cases "map_of (scores st) p")
    case None
    with ad show ?thesis by (simp add: command_on_room_def)
  next
    case (Some g)
    from all_done_game [OF ad Some] have gc: "game_complete g" .
    have same: "dict_set (scores st) p g = scores st" by (rule dict_set_same [OF Some])
    show ?thesis
    proof (cases cmd)
      case (Roll kf)
      show ?thesis
        unfolding Roll command_on_room_roll_game [OF Some]
        using ad by (simp add: roll_dice_complete [OF gc] same)
    next
      case (Score c)
      show ?thesis
        unfolding Score command_on_room_score
        using ad
        by (simp add: Some game_score_category_complete [OF gc] same after_score_all_done)
    next
      case (OtherCommand other)
      with ad Some show ?thesis by (simp add: command_on_room_other)
    qed
  qed
qed

lemma handle_winner_set:
  assumes "map_option winner (map_of rooms code) = Some None"
    and "map_option winner (map_of (handle rooms req) code) = Some (Some w)"
  shows "is_score_for code req
     \<and> map_option all_done (map_of (handle rooms req) code) = Some True"
proof -
  from assms(1) obtain st where st: "map_of rooms code = Some st" and w: "winner st = None"
    by auto
  show ?thesis
  proof (cases req)
    case (Create code' name)
    with assms(2) st w show ?thesis
      by (auto simp: handle_create_def GameState_init_def map_of_dict_set Let_def
            split: if_splits)
  next
    case (Join code' name)
    with assms(2) st w show ?thesis
      by (auto simp: handle_join_def map_of_dict_set Let_def split: option.splits if_splits)
  next
    case (Command rnd code' player cmd)
    show ?thesis
    proof (cases "code' = code")
      case True
      from assms(2) have "winner (snd (command_on_room rnd st player cmd)) \<noteq> None"
        by (simp add: Command True handle_command_room [OF st] map_of_dict_set)
      from command_on_room_winner_set [OF w this] show ?thesis
        by (auto simp: Command True handle_command_room [OF st] map_of_dict_set)
    next
      case False
      have "map_of (handle rooms req) code = map_of rooms code"
      proof (cases "map_of rooms code'")
        case None
        then show ?thesis by (simp add: Command handle_command_no_room)
      next
        case (Some room)
        with False show ?thesis by (simp add: Command handle_command_room map_of_dict_set)
      qed
      with assms(2) st w show ?thesis by simp
    qed
  next
    case (Delete code')
    with assms(2) st w show ?thesis by (simp add: map_of_delete split: if_splits)
  qed
qed

lemma handle_winner_kept:
  assumes "map_option winner (map_of rooms code) = Some (Some w)"
    and "\<not> makes_or_deletes code req"
  shows "\<exists>w'. map_option winner (map_of (handle rooms req) code) = Some (Some w')"
proof -
  from assms(1) obtain st where st: "map_of rooms code = Some st" and w: "winner st = Some w"
    by auto
  show ?thesis
  proof (cases req)
    case (Create code' name)
    with assms(2) st w show ?thesis
      by (simp add: handle_create_def map_of_dict_set Let_def)
  next
    case (Join code' name)
    with st w show ?thesis
      by (auto simp: handle_join_def map_of_dict_set Let_def split: option.splits)
  next
    case (Command rnd code' player cmd)
    show ?thesis
    proof (cases "code' = code")
      case True
      from w have "winner st \<noteq> None" by simp
      from command_on_room_winner_kept [OF this, of rnd player cmd] show ?thesis
        by (auto simp: Command True handle_command_room [OF st] map_of_dict_set)
    next
      case False
      have "map_of (handle rooms req) code = map_of rooms code"
      proof (cases "map_of rooms code'")
        case None
        then show ?thesis by (simp add: Command handle_command_no_room)
      next
        case (Some room)
        with False show ?thesis by (simp add: Command handle_command_room map_of_dict_set)
      qed
      with st w show ?thesis by simp
    qed
  next
    case (Delete code')
    with assms(2) st w show ?thesis by (simp add: map_of_delete)
  qed
qed

text \<open>Without a late join, a winner is set only while all games are complete.\<close>

lemma handle_only_if:
  assumes all: "\<And>c s. map_of rooms c = Some s \<Longrightarrow> winner s \<noteq> None \<longrightarrow> all_done s"
    and nl: "\<not> late_join rooms req"
    and st: "map_of (handle rooms req) code = Some st"
  shows "winner st \<noteq> None \<longrightarrow> all_done st"
proof (cases req)
  case (Create code' name)
  show ?thesis
  proof (cases "code = code'")
    case True
    with st Create have "winner st = None"
      by (auto simp: handle_create_def GameState_init_def map_of_dict_set Let_def)
    then show ?thesis by simp
  next
    case False
    with st Create have "map_of rooms code = Some st"
      by (simp add: handle_create_def map_of_dict_set Let_def)
    then show ?thesis by (rule all)
  qed
next
  case (Join code' name)
  show ?thesis
  proof (cases "map_of rooms code' = None \<or> is_full (the (map_of rooms code'))")
    case True
    with st Join have "map_of rooms code = Some st"
      by (auto simp: handle_join_def split: option.splits)
    then show ?thesis by (rule all)
  next
    case False
    then obtain room where room: "map_of rooms code' = Some room" and nf: "\<not> is_full room"
      by auto
    from nl Join room nf have wn: "winner room = None" by simp
    show ?thesis
    proof (cases "code = code'")
      case True
      from handle_join_room [OF room nf, of name] st Join True wn
      have "winner st = None" by auto
      then show ?thesis by simp
    next
      case False
      with handle_join_room [OF room nf, of name] st Join
      have "map_of rooms code = Some st" by (auto simp: map_of_dict_set)
      then show ?thesis by (rule all)
    qed
  qed
next
  case (Command rnd code' player cmd)
  show ?thesis
  proof (cases "map_of rooms code'")
    case None
    with st Command have "map_of rooms code = Some st" by (simp add: handle_command_no_room)
    then show ?thesis by (rule all)
  next
    case (Some room)
    show ?thesis
    proof (cases "code = code'")
      case True
      with st Command Some have "st = snd (command_on_room rnd room player cmd)"
        by (simp add: handle_command_room map_of_dict_set)
      with command_on_room_only_if [OF all [OF Some]] show ?thesis by simp
    next
      case False
      with st Command Some have "map_of rooms code = Some st"
        by (simp add: handle_command_room map_of_dict_set)
      then show ?thesis by (rule all)
    qed
  qed
next
  case (Delete code')
  with st have "map_of rooms code = Some st"
    by (simp add: map_of_delete split: if_splits)
  then show ?thesis by (rule all)
qed

lemma foldl_handle_only_if:
  assumes "\<And>c s. map_of rooms c = Some s \<Longrightarrow> winner s \<noteq> None \<longrightarrow> all_done s"
    and "no_late_join rooms reqs"
    and "map_of (foldl handle rooms reqs) code = Some st"
  shows "winner st \<noteq> None \<longrightarrow> all_done st"
  using assms
proof (induction reqs arbitrary: rooms code st)
  case Nil
  then show ?case by simp
next
  case (Cons req reqs)
  from Cons.prems(2) have nl: "\<not> late_join rooms req"
    and rest: "no_late_join (handle rooms req) reqs" by simp_all
  show ?case
  proof (rule Cons.IH [of "handle rooms req"])
    fix c s assume "map_of (handle rooms req) c = Some s"
    then show "winner s \<noteq> None \<longrightarrow> all_done s"
      using Cons.prems(1) nl handle_only_if by blast
  next
    show "no_late_join (handle rooms req) reqs" by (rule rest)
  next
    from Cons.prems(3) show "map_of (foldl handle (handle rooms req) reqs) code = Some st"
      by simp
  qed
qed

lemma serve_only_if:
  assumes "no_late_join [] reqs" and "map_of (serve reqs) code = Some st"
  shows "winner st \<noteq> None \<longrightarrow> all_done st"
  using foldl_handle_only_if [of "[]" reqs code st] assms by (simp add: serve_def)

text \<open>
  C5 (as the handler has it). After every run of requests, in every room in which all
  games are complete: \<open>final_scores\<close> maps each player to the grand total of the player's
  game, in join order, and \<open>winner\<close> is set to a player whose total \<open>m\<close> is greater than
  the total of every player who joined earlier and at least the total of every player
  who joined later: the player with the maximal total, and of several the one who
  joined first. After every run in which no player joins a room whose winner is set,
  \<open>winner\<close> is set if and only if all games of the room are complete. A request sets the
  winner of a room only if it is a score command for the room that leaves all its games
  complete; and a winner that is set stays set under every request that does not make
  the room anew or delete it, a join included.
\<close>

theorem winner_when_all_done:
  "(map_of (serve reqs) code = Some st \<and> all_done st \<longrightarrow>
      final_scores st = score_totals st
      \<and> (\<exists>w m xs ys. winner st = Some w \<and> score_totals st = xs @ (w, m) # ys
             \<and> (\<forall>x\<in>set xs. snd x < m) \<and> (\<forall>y\<in>set ys. snd y \<le> m)))
   \<and> (no_late_join [] reqs \<and> map_of (serve reqs) code = Some st \<longrightarrow>
        (winner st \<noteq> None) = all_done st)
   \<and> (map_option winner (map_of rooms code) = Some None
        \<and> map_option winner (map_of (handle rooms req) code) = Some (Some w0) \<longrightarrow>
        is_score_for code req
        \<and> map_option all_done (map_of (handle rooms req) code) = Some True)
   \<and> (map_option winner (map_of rooms code) = Some (Some w0)
        \<and> \<not> makes_or_deletes code req \<longrightarrow>
        (\<exists>w'. map_option winner (map_of (handle rooms req) code) = Some (Some w')))"
proof -
  have a: "map_of (serve reqs) code = Some st \<and> all_done st \<longrightarrow>
      final_scores st = score_totals st
      \<and> (\<exists>w m xs ys. winner st = Some w \<and> score_totals st = xs @ (w, m) # ys
             \<and> (\<forall>x\<in>set xs. snd x < m) \<and> (\<forall>y\<in>set ys. snd y \<le> m))"
  proof
    assume h: "map_of (serve reqs) code = Some st \<and> all_done st"
    then have h1: "map_of (serve reqs) code = Some st" and h2: "all_done st" by simp_all
    from serve_recorded [OF h1] h2
    have ne: "scores st \<noteq> []" and fs: "final_scores st = score_totals st"
      and w: "winner st = Some (max_by_value (hd (score_totals st)) (tl (score_totals st)))"
      by (simp_all add: winner_recorded_def)
    from ne obtain t ts where t: "score_totals st = t # ts"
      by (cases "scores st") (auto simp: score_totals_def)
    from max_by_value_first_max [of t ts] obtain m xs ys where
      sp: "t # ts = xs @ (max_by_value t ts, m) # ys"
      and lt: "\<forall>x\<in>set xs. snd x < m" and le: "\<forall>y\<in>set ys. snd y \<le> m"
      by blast
    from w have w': "winner st = Some (max_by_value t ts)" unfolding t by simp
    from sp have sp': "score_totals st = xs @ (max_by_value t ts, m) # ys" unfolding t .
    from w' sp' lt le
    have "\<exists>w m xs ys. winner st = Some w \<and> score_totals st = xs @ (w, m) # ys
            \<and> (\<forall>x\<in>set xs. snd x < m) \<and> (\<forall>y\<in>set ys. snd y \<le> m)"
      by blast
    with fs show "final_scores st = score_totals st
      \<and> (\<exists>w m xs ys. winner st = Some w \<and> score_totals st = xs @ (w, m) # ys
             \<and> (\<forall>x\<in>set xs. snd x < m) \<and> (\<forall>y\<in>set ys. snd y \<le> m))"
      by (rule conjI)
  qed
  have b: "no_late_join [] reqs \<and> map_of (serve reqs) code = Some st \<longrightarrow>
        (winner st \<noteq> None) = all_done st"
  proof
    assume h: "no_late_join [] reqs \<and> map_of (serve reqs) code = Some st"
    then have h1: "no_late_join [] reqs" and h2: "map_of (serve reqs) code = Some st"
      by simp_all
    from serve_only_if [OF h1 h2] have only_if: "winner st \<noteq> None \<longrightarrow> all_done st" .
    from serve_recorded [OF h2] have "all_done st \<longrightarrow> winner st \<noteq> None"
      by (simp add: winner_recorded_def)
    with only_if show "(winner st \<noteq> None) = all_done st" by blast
  qed
  have c: "map_option winner (map_of rooms code) = Some None
        \<and> map_option winner (map_of (handle rooms req) code) = Some (Some w0) \<longrightarrow>
        is_score_for code req
        \<and> map_option all_done (map_of (handle rooms req) code) = Some True"
    using handle_winner_set [of rooms code req w0] by blast
  have d: "map_option winner (map_of rooms code) = Some (Some w0)
        \<and> \<not> makes_or_deletes code req \<longrightarrow>
        (\<exists>w'. map_option winner (map_of (handle rooms req) code) = Some (Some w'))"
    using handle_winner_kept [of rooms code w0 req] by blast
  from a b c d show ?thesis by (intro conjI)
qed

text \<open>
  Two players who each commit the thirteen categories in turn, with the same dice, end
  with 215 points each; the winner is \<open>A\<close>, who joined first. A player alone in a room
  has no winner after twelve commits; the thirteenth sets it, and a join after that
  keeps it.
\<close>

theorem winner_when_all_done_witness:
  "map_option (\<lambda>st. (all_done st, score_totals st))
      (map_of (serve ([Create ''1234'' ''A'', Join ''1234'' ''B'']
           @ concat (map (\<lambda>c. [Command (\<lambda>k. 3) ''1234'' ''A'' (Score c),
                                Command (\<lambda>k. 3) ''1234'' ''B'' (Score c)]) categories)))
         ''1234'')
     = Some (True, [(''A'', 215), (''B'', 215)])
   \<and> no_late_join []
        ([Create ''1234'' ''A'', Join ''1234'' ''B'']
           @ concat (map (\<lambda>c. [Command (\<lambda>k. 3) ''1234'' ''A'' (Score c),
                                Command (\<lambda>k. 3) ''1234'' ''B'' (Score c)]) categories))
   \<and> map_option (\<lambda>st. (final_scores st, winner st, (winner st \<noteq> None) = all_done st))
      (map_of (serve ([Create ''1234'' ''A'', Join ''1234'' ''B'']
           @ concat (map (\<lambda>c. [Command (\<lambda>k. 3) ''1234'' ''A'' (Score c),
                                Command (\<lambda>k. 3) ''1234'' ''B'' (Score c)]) categories)))
         ''1234'')
     = Some ([(''A'', 215), (''B'', 215)], Some ''A'', True)
   \<and> map_option winner
        (map_of (serve (Create ''1234'' ''A''
             # map (\<lambda>c. Command (\<lambda>k. 3) ''1234'' ''A'' (Score c)) (butlast categories)))
           ''1234'')
     = Some None
   \<and> map_option winner
        (map_of (handle (serve (Create ''1234'' ''A''
             # map (\<lambda>c. Command (\<lambda>k. 3) ''1234'' ''A'' (Score c)) (butlast categories)))
             (Command (\<lambda>k. 3) ''1234'' ''A'' (Score ''chance''))) ''1234'')
     = Some (Some ''A'')
   \<and> is_score_for ''1234'' (Command (\<lambda>k. 3) ''1234'' ''A'' (Score ''chance''))
   \<and> map_option all_done
        (map_of (handle (serve (Create ''1234'' ''A''
             # map (\<lambda>c. Command (\<lambda>k. 3) ''1234'' ''A'' (Score c)) (butlast categories)))
             (Command (\<lambda>k. 3) ''1234'' ''A'' (Score ''chance''))) ''1234'')
     = Some True
   \<and> \<not> makes_or_deletes ''1234'' (Join ''1234'' ''B'')
   \<and> (\<exists>w'. map_option winner
        (map_of (handle (handle (serve (Create ''1234'' ''A''
             # map (\<lambda>c. Command (\<lambda>k. 3) ''1234'' ''A'' (Score c)) (butlast categories)))
             (Command (\<lambda>k. 3) ''1234'' ''A'' (Score ''chance''))) (Join ''1234'' ''B''))
           ''1234'')
     = Some (Some w'))"
proof -
  define reqs where "reqs = [Create ''1234'' ''A'', Join ''1234'' ''B'']
           @ concat (map (\<lambda>c. [Command (\<lambda>k. 3) ''1234'' ''A'' (Score c),
                                Command (\<lambda>k. 3) ''1234'' ''B'' (Score c)]) categories)"
  define rooms12 where "rooms12 = serve (Create ''1234'' ''A''
             # map (\<lambda>c. Command (\<lambda>k. 3) ''1234'' ''A'' (Score c)) (butlast categories))"
  define last_score where "last_score = Command (\<lambda>k. 3) ''1234'' ''A'' (Score ''chance'')"
  have run: "map_option (\<lambda>st. (all_done st, score_totals st)) (map_of (serve reqs) ''1234'')
     = Some (True, [(''A'', 215), (''B'', 215)])"
    unfolding reqs_def by code_simp
  have nl: "no_late_join [] reqs" unfolding reqs_def by code_simp
  from run obtain st where st: "map_of (serve reqs) ''1234'' = Some st"
    and dn: "all_done st" and tot: "score_totals st = [(''A'', 215), (''B'', 215)]"
    by auto
  note t = winner_when_all_done [where reqs = reqs and code = "''1234''" and st = st
      and rooms = rooms12 and req = last_score and ?w0.0 = "''A''"]
  from t st dn obtain w m xs ys where
    fs: "final_scores st = score_totals st" and w: "winner st = Some w"
    and split: "score_totals st = xs @ (w, m) # ys"
    and lt: "\<forall>x\<in>set xs. snd x < m" and le: "\<forall>y\<in>set ys. snd y \<le> m"
    by blast
  from t nl st have iff: "(winner st \<noteq> None) = all_done st" by blast
  have "w = ''A''"
  proof (cases xs)
    case Nil
    with split tot show ?thesis by simp
  next
    case (Cons x xs')
    with split tot have x: "x = (''A'', 215)" and r: "[(''B'', 215)] = xs' @ (w, m) # ys"
      by simp_all
    from r have "xs' = [] \<and> (w, m) = (''B'', 215)"
      by (cases xs') simp_all
    then have "m = 215" by simp
    with lt Cons x show ?thesis by simp
  qed
  with w fs tot st iff
  have fin: "map_option (\<lambda>st. (final_scores st, winner st, (winner st \<noteq> None) = all_done st))
      (map_of (serve reqs) ''1234'') = Some ([(''A'', 215), (''B'', 215)], Some ''A'', True)"
    by simp
  have before: "map_option winner (map_of rooms12 ''1234'') = Some None"
    unfolding rooms12_def by code_simp
  have after: "map_option winner (map_of (handle rooms12 last_score) ''1234'') = Some (Some ''A'')"
    unfolding rooms12_def last_score_def by code_simp
  from t before after have set1: "is_score_for ''1234'' last_score"
    and set2: "map_option all_done (map_of (handle rooms12 last_score) ''1234'') = Some True"
    by blast+
  have nm: "\<not> makes_or_deletes ''1234'' (Join ''1234'' ''B'')" by simp
  from winner_when_all_done [where rooms = "handle rooms12 last_score" and code = "''1234''"
      and req = "Join ''1234'' ''B''" and ?w0.0 = "''A''"] after nm
  have kept: "\<exists>w'. map_option winner
      (map_of (handle (handle rooms12 last_score) (Join ''1234'' ''B'')) ''1234'')
        = Some (Some w')"
    by blast
  from run nl fin before after set1 set2 nm kept show ?thesis
    unfolding reqs_def rooms12_def last_score_def by (intro conjI)
qed

text \<open>
  A winner without all games complete. The creator of a room plays the thirteen turns
  alone, which completes the only game of the room and sets the winner; the room is not
  full, so a second player can join, with a new game. Then \<open>winner\<close> is set and
  \<open>final_scores\<close> has one entry while the game of \<open>B\<close> is not complete.
\<close>

theorem winner_set_with_incomplete_game:
  "map_option
      (\<lambda>st. (winner st, final_scores st, map (\<lambda>(p, g). (p, game_complete g)) (scores st),
             all_done st))
      (map_of (serve (Create ''1234'' ''A''
                 # map (\<lambda>c. Command (\<lambda>k. 3) ''1234'' ''A'' (Score c)) categories
                 @ [Join ''1234'' ''B''])) ''1234'')
     = Some (Some ''A'', [(''A'', 215)], [(''A'', True), (''B'', False)], False)"
  by code_simp

end
